theory Spec2Isabelle
  imports Complex_Main
begin

section \<open>JSON values\<close>

text \<open>
  Values typed \<open>unknown\<close> or \<open>Record<string, unknown>\<close> in the source are JSON values.
  A number is kept as its literal; an object keeps the order of its keys.
\<close>

datatype json =
    JNull
  | JBool bool
  | JNum string
  | JString string
  | JArray "json list"
  | JObject "(string \<times> json) list"

text \<open>
  \<open>JSON.stringify\<close> and \<open>JSON.parse\<close> belong to the runtime, not to the package. The
  functions below take them as parameters (\<open>stringify\<close>, \<open>parse\<close>), so every theorem
  holds for whatever the runtime computes. \<open>render_json\<close> is a compact renderer that
  stands for \<open>JSON.stringify\<close> where a concrete run is evaluated.
\<close>

fun escape_char :: "char \<Rightarrow> string" where
  "escape_char c =
     (if c = CHR 0x22 then [CHR 0x5C, CHR 0x22]
      else if c = CHR 0x5C then [CHR 0x5C, CHR 0x5C]
      else [c])"

definition quote :: "string \<Rightarrow> string" where
  "quote s = [CHR 0x22] @ concat (map escape_char s) @ [CHR 0x22]"

fun join_with :: "string \<Rightarrow> string list \<Rightarrow> string" where
  "join_with sep [] = []"
| "join_with sep [x] = x"
| "join_with sep (x # y # ys) = x @ sep @ join_with sep (y # ys)"

primrec render_json :: "json \<Rightarrow> string" where
  "render_json JNull = ''null''"
| "render_json (JBool b) = (if b then ''true'' else ''false'')"
| "render_json (JNum n) = n"
| "render_json (JString s) = quote s"
| "render_json (JArray xs) = ''['' @ join_with '','' (map render_json xs) @ '']''"
| "render_json (JObject kvs) =
     ''{'' @ join_with '',''
        (map (\<lambda>kv. quote (fst kv) @ '':'' @ snd kv) (map (map_prod id render_json) kvs)) @ ''}''"

section \<open>SDK messages (types/messages.ts)\<close>

datatype MessageRole = System | User | Assistant | Tool

text \<open>\<open>FileContent.data\<close> is a base64 string or a \<open>Uint8Array\<close>.\<close>

datatype FileData = Base64 string | Bytes "nat list"

text \<open>
  The content block union. Every variant has the optional \<open>metadata\<close> as its last
  argument; \<open>ToolResultContent\<close> has the optional \<open>isError\<close> before it.
\<close>

datatype ContentBlock =
    TextContent string "json option"
  | ReasoningContent string "json option"
  | FileContent string FileData "json option"
  | ToolCallContent string string string "json option"
  | ToolResultContent string json "bool option" "json option"

record Message =
  msg_role :: MessageRole
  msg_content :: ContentBlock
  msg_name :: "string option"

definition textMessage :: "MessageRole \<Rightarrow> string \<Rightarrow> Message" where
  "textMessage role text =
     \<lparr>msg_role = role, msg_content = TextContent text None, msg_name = None\<rparr>"

text \<open>
  \<open>toolResultMessage(toolCallId, result, isError = false)\<close>: the third argument may be
  omitted (\<open>None\<close>), and then defaults to \<open>false\<close>.
\<close>

definition toolResultMessage :: "string \<Rightarrow> json \<Rightarrow> bool option \<Rightarrow> Message" where
  "toolResultMessage toolCallId result isError =
     \<lparr>msg_role = Tool,
      msg_content = ToolResultContent toolCallId result
                      (Some (case isError of None \<Rightarrow> False | Some b \<Rightarrow> b)) None,
      msg_name = None\<rparr>"

subsection \<open>The JSON view of a content block\<close>

text \<open>What \<open>JSON.stringify\<close> sees of a content block: absent optional fields are left out.\<close>

definition opt_field :: "string \<Rightarrow> json option \<Rightarrow> (string \<times> json) list" where
  "opt_field k v = (case v of None \<Rightarrow> [] | Some j \<Rightarrow> [(k, j)])"

fun show_nat :: "nat \<Rightarrow> string" where
  "show_nat n =
     (if n < 10 then [char_of (48 + n)]
      else show_nat (n div 10) @ [char_of (48 + n mod 10)])"

declare show_nat.simps [simp del]

text \<open>A \<open>Uint8Array\<close> is rendered as an object keyed by the indices.\<close>

fun index_fields :: "nat \<Rightarrow> nat list \<Rightarrow> (string \<times> json) list" where
  "index_fields i [] = []"
| "index_fields i (b # bs) = (show_nat i, JNum (show_nat b)) # index_fields (Suc i) bs"

fun json_of_file_data :: "FileData \<Rightarrow> json" where
  "json_of_file_data (Base64 s) = JString s"
| "json_of_file_data (Bytes bs) = JObject (index_fields 0 bs)"

fun json_of_content :: "ContentBlock \<Rightarrow> json" where
  "json_of_content (TextContent t md) =
     JObject ([(''type'', JString ''text''), (''text'', JString t)] @ opt_field ''metadata'' md)"
| "json_of_content (ReasoningContent t md) =
     JObject ([(''type'', JString ''reasoning''), (''text'', JString t)] @ opt_field ''metadata'' md)"
| "json_of_content (FileContent mt d md) =
     JObject ([(''type'', JString ''file''), (''mediaType'', JString mt),
               (''data'', json_of_file_data d)] @ opt_field ''metadata'' md)"
| "json_of_content (ToolCallContent cid nm inp md) =
     JObject ([(''type'', JString ''tool-call''), (''toolCallId'', JString cid),
               (''toolName'', JString nm), (''input'', JString inp)] @ opt_field ''metadata'' md)"
| "json_of_content (ToolResultContent cid res err md) =
     JObject ([(''type'', JString ''tool-result''), (''toolCallId'', JString cid),
               (''result'', res)] @ opt_field ''isError'' (map_option JBool err)
              @ opt_field ''metadata'' md)"

section \<open>Provider messages (@langchain/core/messages, as the adapters use them)\<close>

text \<open>
  The blocks of an array content, as \<open>chatModelAdapter.ts\<close> declares them: a plain
  string, a text block, a tool-use block. \<open>OtherBlock\<close> is an object block of any other
  type (its \<open>type\<close> tag and the object), which the declared union does not list but a
  provider message may carry.
\<close>

datatype LcContentBlock =
    StringBlock string
  | TextBlock string
  | ToolUseBlock string string json
  | OtherBlock string json

datatype LcContent = StrContent string | ArrContent "LcContentBlock list"

record LcToolCall =
  lc_tc_id :: string
  lc_tc_name :: string
  lc_tc_args :: json

record UsageMetadata =
  input_tokens :: int
  output_tokens :: int
  total_tokens :: int

text \<open>
  A provider message: what \<open>_getType()\<close> returns, the content, and the fields the
  adapters pass to the constructors (\<open>None\<close> where a constructor is given \<open>undefined\<close>
  or nothing).
\<close>

record BaseMessage =
  lc_type :: string
  lc_content :: LcContent
  lc_tool_call_id :: "string option"
  lc_tool_calls :: "LcToolCall list option"
  lc_usage_metadata :: "UsageMetadata option"
  lc_response_model :: "string option"
  lc_id :: "string option"

definition plain_message :: "string \<Rightarrow> string \<Rightarrow> BaseMessage" where
  "plain_message ty text =
     \<lparr>lc_type = ty, lc_content = StrContent text, lc_tool_call_id = None,
      lc_tool_calls = None, lc_usage_metadata = None, lc_response_model = None,
      lc_id = None\<rparr>"

definition SystemMessage :: "string \<Rightarrow> BaseMessage" where
  "SystemMessage text = plain_message ''system'' text"

definition HumanMessage :: "string \<Rightarrow> BaseMessage" where
  "HumanMessage text = plain_message ''human'' text"

definition AIMessage :: "string \<Rightarrow> BaseMessage" where
  "AIMessage text = plain_message ''ai'' text"

text \<open>\<open>new AIMessageChunk({ content })\<close>: a chunk reports the type \<open>ai\<close> as well.\<close>

definition AIMessageChunk :: "string \<Rightarrow> BaseMessage" where
  "AIMessageChunk text = plain_message ''ai'' text"

text \<open>\<open>new ToolMessage({ content, tool_call_id })\<close>\<close>

definition ToolMessage :: "string \<Rightarrow> string \<Rightarrow> BaseMessage" where
  "ToolMessage text tool_call_id =
     (plain_message ''tool'' text)\<lparr>lc_tool_call_id := Some tool_call_id\<rparr>"

fun json_of_block :: "LcContentBlock \<Rightarrow> json" where
  "json_of_block (StringBlock s) = JString s"
| "json_of_block (TextBlock t) = JObject [(''type'', JString ''text''), (''text'', JString t)]"
| "json_of_block (ToolUseBlock i n inp) =
     JObject [(''type'', JString ''tool_use''), (''id'', JString i), (''name'', JString n),
              (''input'', inp)]"
| "json_of_block (OtherBlock ty obj) = obj"

section \<open>The history adapter's conversions (adapters/chatHistoryAdapter.ts)\<close>

definition sdkMessageToLangChain :: "(json \<Rightarrow> string) \<Rightarrow> Message \<Rightarrow> BaseMessage" where
  "sdkMessageToLangChain stringify message =
     (let text = (case msg_content message of
                    TextContent t md \<Rightarrow> t
                  | c \<Rightarrow> stringify (json_of_content c))
      in case msg_role message of
           System \<Rightarrow> SystemMessage text
         | User \<Rightarrow> HumanMessage text
         | Assistant \<Rightarrow> AIMessage text
         | Tool \<Rightarrow>
             (case msg_content message of
                ToolResultContent toolCallId result isError md \<Rightarrow>
                  ToolMessage (case result of JString s \<Rightarrow> s | r \<Rightarrow> stringify r) toolCallId
              | c \<Rightarrow> AIMessage text))"

definition langChainMessageToSdk :: "(json \<Rightarrow> string) \<Rightarrow> BaseMessage \<Rightarrow> Message" where
  "langChainMessageToSdk stringify message =
     (let type = lc_type message;
          role = (if type = ''system'' then System
                  else if type = ''human'' then User
                  else if type = ''ai'' then Assistant
                  else if type = ''tool'' then Tool
                  else User);
          content = (case lc_content message of
                       StrContent s \<Rightarrow> s
                     | ArrContent bs \<Rightarrow> stringify (JArray (map json_of_block bs)))
      in \<lparr>msg_role = role, msg_content = TextContent content None, msg_name = None\<rparr>)"

section \<open>Errors and effects\<close>

text \<open>
  A thrown \<open>Error\<close> (or a rejected promise) is a value. A call on an external store or
  provider takes the state of that collaborator and returns the outcome together with
  the state it leaves behind, also when it fails.
\<close>

datatype error = Error string | TypeError string

text \<open>The \<open>TypeError\<close> of reading a property of \<open>undefined\<close>.\<close>

definition undefined_read :: "string \<Rightarrow> error" where
  "undefined_read prop =
     TypeError (''Cannot read properties of undefined (reading '' @ [CHR 0x27] @ prop
                @ [CHR 0x27] @ '')'')"

type_synonym ('a, 's) io = "'s \<Rightarrow> (error + 'a) \<times> 's"

section \<open>Chat history (types/memory.ts) and its adapter\<close>

text \<open>The \<open>ChatHistory\<close> interface over a store of type \<open>'s\<close>; \<open>addMessages\<close> is optional.\<close>

record 's ChatHistory =
  h_getMessages :: "(Message list, 's) io"
  h_addMessage :: "Message \<Rightarrow> (unit, 's) io"
  h_addMessages :: "(Message list \<Rightarrow> (unit, 's) io) option"
  h_clear :: "(unit, 's) io"

text \<open>
  The fallback of the constructor:
  \<^verbatim>\<open>async (msgs) => { for (const m of msgs) { await chatHistory.addMessage(m); } }\<close>
  A rejected \<open>addMessage\<close> ends the loop; the store stays as the calls so far left it.
\<close>

fun addMessages_fallback :: "'s ChatHistory \<Rightarrow> Message list \<Rightarrow> (unit, 's) io" where
  "addMessages_fallback h [] s = (Inr (), s)"
| "addMessages_fallback h (m # ms) s =
     (case h_addMessage h m s of
        (Inl e, s') \<Rightarrow> (Inl e, s')
      | (Inr u, s') \<Rightarrow> addMessages_fallback h ms s')"

record 's ChatHistoryAdapter =
  chatHistory :: "'s ChatHistory"
  addMessagesFn :: "Message list \<Rightarrow> (unit, 's) io"

definition new_ChatHistoryAdapter :: "'s ChatHistory \<Rightarrow> 's ChatHistoryAdapter" where
  "new_ChatHistoryAdapter h =
     \<lparr>chatHistory = h,
      addMessagesFn = (case h_addMessages h of Some f \<Rightarrow> f | None \<Rightarrow> addMessages_fallback h)\<rparr>"

definition getMessages ::
  "(json \<Rightarrow> string) \<Rightarrow> 's ChatHistoryAdapter \<Rightarrow> (BaseMessage list, 's) io" where
  "getMessages stringify a s =
     (case h_getMessages (chatHistory a) s of
        (Inl e, s') \<Rightarrow> (Inl e, s')
      | (Inr sdkMessages, s') \<Rightarrow> (Inr (map (sdkMessageToLangChain stringify) sdkMessages), s'))"

definition addMessage ::
  "(json \<Rightarrow> string) \<Rightarrow> 's ChatHistoryAdapter \<Rightarrow> BaseMessage \<Rightarrow> (unit, 's) io" where
  "addMessage stringify a message s =
     h_addMessage (chatHistory a) (langChainMessageToSdk stringify message) s"

definition addUserMessage ::
  "(json \<Rightarrow> string) \<Rightarrow> 's ChatHistoryAdapter \<Rightarrow> string \<Rightarrow> (unit, 's) io" where
  "addUserMessage stringify a message s = addMessage stringify a (HumanMessage message) s"

definition addAIMessage ::
  "(json \<Rightarrow> string) \<Rightarrow> 's ChatHistoryAdapter \<Rightarrow> string \<Rightarrow> (unit, 's) io" where
  "addAIMessage stringify a message s = addMessage stringify a (AIMessage message) s"

definition addMessages ::
  "(json \<Rightarrow> string) \<Rightarrow> 's ChatHistoryAdapter \<Rightarrow> BaseMessage list \<Rightarrow> (unit, 's) io" where
  "addMessages stringify a messages s =
     addMessagesFn a (map (langChainMessageToSdk stringify) messages) s"

definition clear :: "'s ChatHistoryAdapter \<Rightarrow> (unit, 's) io" where
  "clear a s = h_clear (chatHistory a) s"

subsection \<open>A bounded in-memory history\<close>

text \<open>
  A \<open>ChatHistory\<close> as a community node may implement it: the store is the list of
  messages, \<open>addMessage\<close> appends and rejects once \<open>cap\<close> messages are stored, and the
  optional \<open>addMessages\<close> is not implemented.
\<close>

definition bounded_history :: "nat \<Rightarrow> (Message list) ChatHistory" where
  "bounded_history cap =
     \<lparr>h_getMessages = (\<lambda>s. (Inr s, s)),
      h_addMessage = (\<lambda>m s. if length s < cap then (Inr (), s @ [m])
                             else (Inl (Error ''history full''), s)),
      h_addMessages = None,
      h_clear = (\<lambda>s. (Inr (), []))\<rparr>"

text \<open>
  The same store with an \<open>addMessages\<close> of its own, which appends the whole batch when
  it fits and rejects it untouched otherwise.
\<close>

definition batch_history :: "nat \<Rightarrow> (Message list) ChatHistory" where
  "batch_history cap =
     (bounded_history cap)
       \<lparr>h_addMessages :=
          Some (\<lambda>ms s. if length s + length ms \<le> cap then (Inr (), s @ ms)
                         else (Inl (Error ''history full''), s))\<rparr>"

section \<open>Tools, results and model options (types/tools.ts, results.ts, chatModel.ts)\<close>

record Tool_ =
  tool_name :: string
  tool_description :: "string option"
  tool_parameters :: json
  tool_strict :: "bool option"
  tool_execute :: "(json \<Rightarrow> error + json) option"

record ToolCall =
  tc_id :: string
  tc_name :: string
  tc_arguments :: json
  tc_argumentsRaw :: "string option"

datatype ToolChoice = Auto | Required | NoTool | SpecificTool string

datatype FinishReason = Stop | Length | ContentFilter | ToolCalls | ErrorFinish | OtherFinish

record TokenUsage =
  promptTokens :: int
  completionTokens :: int
  totalTokens :: int

record GenerateResult =
  gr_id :: "string option"
  gr_text :: string
  gr_finishReason :: "FinishReason option"
  gr_usage :: "TokenUsage option"
  gr_toolCalls :: "ToolCall list option"
  gr_rawResponse :: "json option"

datatype ChunkType = TextDelta | ToolCallDelta | Finish | ErrorChunk

record ToolCallDeltaFields =
  tcd_id :: "string option"
  tcd_name :: "string option"
  tcd_argumentsDelta :: "string option"

record StreamChunk =
  sc_type :: ChunkType
  sc_textDelta :: "string option"
  sc_toolCallDelta :: "ToolCallDeltaFields option"
  sc_finishReason :: "string option"
  sc_usage :: "TokenUsage option"
  sc_error :: "json option"

record ChatModelConfig =
  cfg_maxTokens :: "int option"
  cfg_temperature :: "real option"
  cfg_topP :: "real option"
  cfg_topK :: "int option"
  cfg_presencePenalty :: "real option"
  cfg_frequencyPenalty :: "real option"
  cfg_stopSequences :: "string list option"
  cfg_seed :: "int option"
  cfg_timeout :: "int option"
  cfg_maxRetries :: "int option"
  cfg_headers :: "(string \<times> string) list option"
  cfg_tools :: "Tool_ list option"
  cfg_toolChoice :: "ToolChoice option"
  cfg_providerOptions :: "json option"

text \<open>
  \<open>CustomChatModelOptions\<close> over a provider state \<open>'s\<close>. \<open>generate\<close> resolves to a
  result or rejects. \<open>stream\<close> is optional; the sequence it produces is finite and is
  given as the chunks it delivers, the error it throws after them if it throws, and
  the provider state it leaves. (\<open>withTools\<close> and the \<open>abortSignal\<close> of the config are
  never consulted by the adapter and are left out.)
\<close>

record 's CustomChatModelOptions =
  opt_name :: string
  opt_generate :: "Message list \<Rightarrow> ChatModelConfig \<Rightarrow> (GenerateResult, 's) io"
  opt_stream ::
    "(Message list \<Rightarrow> ChatModelConfig \<Rightarrow> 's \<Rightarrow> (StreamChunk list \<times> error option) \<times> 's) option"

record OpenAICompatibleModelOptions =
  oa_apiKey :: string
  oa_model :: string
  oa_baseUrl :: "string option"
  oa_temperature :: "real option"
  oa_maxTokens :: "int option"
  oa_topP :: "real option"
  oa_frequencyPenalty :: "real option"
  oa_presencePenalty :: "real option"
  oa_stopSequences :: "string list option"
  oa_timeout :: "int option"
  oa_maxRetries :: "int option"
  oa_headers :: "(string \<times> string) list option"
  oa_callbacks :: "json list option"
  oa_onFailedAttempt :: "(json \<Rightarrow> error + unit) option"
  oa_clientOptions :: "(string \<times> json option) list option"

text \<open>
  The options union of \<open>createChatModel\<close>. \<open>UnknownModelType\<close> is an options object
  whose \<open>type\<close> tag is neither of the two, which the final \<open>throw\<close> is there for.
\<close>

datatype 's ChatModelOptions =
    OpenAICompatible OpenAICompatibleModelOptions
  | Custom "'s CustomChatModelOptions"
  | UnknownModelType string

section \<open>The model adapter (adapters/chatModelAdapter.ts)\<close>

definition langChainRoleToSdkRole :: "string \<Rightarrow> MessageRole" where
  "langChainRoleToSdkRole type =
     (if type = ''system'' then System
      else if type = ''human'' then User
      else if type = ''ai'' then Assistant
      else if type = ''tool'' then Tool
      else User)"

text \<open>\<open>Message | Message[]\<close>, the return type of \<open>convertToSdkMessage\<close>.\<close>

datatype MessageOrMessages = Single Message | Multiple "Message list"

text \<open>
  The loop over the blocks of an array content, with the array \<open>messages\<close> it pushes to.
  A block of another type is skipped.
\<close>

fun push_blocks ::
  "(json \<Rightarrow> string) \<Rightarrow> MessageRole \<Rightarrow> LcContentBlock list \<Rightarrow> Message list \<Rightarrow> Message list" where
  "push_blocks stringify role [] messages = messages"
| "push_blocks stringify role (StringBlock b # bs) messages =
     push_blocks stringify role bs
       (messages @ [\<lparr>msg_role = role, msg_content = TextContent b None, msg_name = None\<rparr>])"
| "push_blocks stringify role (TextBlock t # bs) messages =
     push_blocks stringify role bs
       (messages @ [\<lparr>msg_role = role, msg_content = TextContent t None, msg_name = None\<rparr>])"
| "push_blocks stringify role (ToolUseBlock i n inp # bs) messages =
     push_blocks stringify role bs
       (messages @ [\<lparr>msg_role = Assistant,
                      msg_content = ToolCallContent i n (stringify inp) None,
                      msg_name = None\<rparr>])"
| "push_blocks stringify role (OtherBlock ty obj # bs) messages =
     push_blocks stringify role bs messages"

text \<open>
  \<open>convertToSdkMessage\<close>. A provider content is a string or an array, so the last
  \<open>return\<close> of the source, for a content that is neither, has no input here.
\<close>

definition convertToSdkMessage :: "(json \<Rightarrow> string) \<Rightarrow> BaseMessage \<Rightarrow> MessageOrMessages" where
  "convertToSdkMessage stringify msg =
     (let role = langChainRoleToSdkRole (lc_type msg)
      in case lc_content msg of
           StrContent c \<Rightarrow>
             Single \<lparr>msg_role = role, msg_content = TextContent c None, msg_name = None\<rparr>
         | ArrContent blocks \<Rightarrow>
             (let messages = push_blocks stringify role blocks []
              in case messages of
                   [] \<Rightarrow> Single \<lparr>msg_role = role, msg_content = TextContent [] None,
                                msg_name = None\<rparr>
                 | [m] \<Rightarrow> Single m
                 | _ \<Rightarrow> Multiple messages))"

text \<open>\<open>messages.flatMap(convertToSdkMessage)\<close>: an array result is spliced in.\<close>

fun spread :: "MessageOrMessages \<Rightarrow> Message list" where
  "spread (Single m) = [m]"
| "spread (Multiple ms) = ms"

definition flatMap_convertToSdkMessage ::
  "(json \<Rightarrow> string) \<Rightarrow> BaseMessage list \<Rightarrow> Message list" where
  "flatMap_convertToSdkMessage stringify messages =
     concat (map (\<lambda>m. spread (convertToSdkMessage stringify m)) messages)"

record ChatGeneration =
  gen_text :: string
  gen_message :: BaseMessage

record LlmOutput =
  tokenUsage :: "TokenUsage option"
  finishReason :: "FinishReason option"

record ChatResult =
  generations :: "ChatGeneration list"
  llmOutput :: LlmOutput

definition convertToLangChainResult :: "GenerateResult \<Rightarrow> string \<Rightarrow> ChatResult" where
  "convertToLangChainResult result modelId =
     (let aiMessage =
            \<lparr>lc_type = ''ai'',
             lc_content = StrContent (gr_text result),
             lc_tool_call_id = None,
             lc_tool_calls =
               map_option
                 (map (\<lambda>tc. \<lparr>lc_tc_id = tc_id tc, lc_tc_name = tc_name tc,
                               lc_tc_args = tc_arguments tc\<rparr>))
                 (gr_toolCalls result),
             lc_usage_metadata =
               (case gr_usage result of
                  Some u \<Rightarrow> Some \<lparr>input_tokens = promptTokens u,
                                   output_tokens = completionTokens u,
                                   total_tokens = totalTokens u\<rparr>
                | None \<Rightarrow> None),
             lc_response_model = Some modelId,
             lc_id = gr_id result\<rparr>
      in \<lparr>generations = [\<lparr>gen_text = gr_text result, gen_message = aiMessage\<rparr>],
          llmOutput = \<lparr>tokenUsage = gr_usage result,
                       finishReason = gr_finishReason result\<rparr>\<rparr>)"

record 's ChatModelAdapter =
  cma_options :: "'s CustomChatModelOptions"
  boundTools :: "Tool_ list"

text \<open>
  \<open>_llmType()\<close> on an object whose field \<open>options\<close> holds the given value; \<open>None\<close> is
  the field before the constructor has assigned it, when reading \<open>this.options.name\<close>
  throws.
\<close>

definition llmType_of :: "'s CustomChatModelOptions option \<Rightarrow> error + string" where
  "llmType_of options =
     (case options of
        None \<Rightarrow> Inl (undefined_read ''name'')
      | Some opt \<Rightarrow> Inr (''sdk-custom-'' @ opt_name opt))"

text \<open>
  The base class \<open>BaseChatModel\<close> is the provider library's. Its constructor
  initialises the field \<open>lc_namespace\<close> to
  \<^verbatim>\<open>["langchain", "chat_models", this._llmType()]\<close>, so the \<open>_llmType\<close> of the
  subclass runs inside \<open>super({})\<close>. \<open>BaseChatModel_init\<close> takes what that call does
  and returns the namespace, or throws what the call throws.
\<close>

definition BaseChatModel_init :: "(error + string) \<Rightarrow> error + string list" where
  "BaseChatModel_init llm =
     (case llm of Inl e \<Rightarrow> Inl e | Inr ty \<Rightarrow> Inr [''langchain'', ''chat_models'', ty])"

text \<open>
  The constructor:
  \<^verbatim>\<open>constructor(options) { super({}); this.options = options; }\<close>
  with the field initialiser \<open>boundTools = []\<close>. \<open>super({})\<close> runs first, on an object
  whose \<open>options\<close> is not assigned yet; the assignments follow only if it returns.
\<close>

definition new_ChatModelAdapter :: "'s CustomChatModelOptions \<Rightarrow> error + 's ChatModelAdapter" where
  "new_ChatModelAdapter options =
     (case BaseChatModel_init (llmType_of (None :: 's CustomChatModelOptions option)) of
        Inl e \<Rightarrow> Inl e
      | Inr lc_namespace \<Rightarrow> Inr \<lparr>cma_options = options, boundTools = []\<rparr>)"

text \<open>
  An adapter object as the constructor's assignments describe it: the given options
  and no bound tools. The methods below are functions of such an object.
\<close>

definition adapter_of :: "'s CustomChatModelOptions \<Rightarrow> 's ChatModelAdapter" where
  "adapter_of options = \<lparr>cma_options = options, boundTools = []\<rparr>"

definition llmType :: "'s ChatModelAdapter \<Rightarrow> string" where
  "llmType a = ''sdk-custom-'' @ opt_name (cma_options a)"

definition modelId :: "'s ChatModelAdapter \<Rightarrow> string" where
  "modelId a = opt_name (cma_options a)"

text \<open>The call options the adapter reads (\<open>None\<close>: no options object).\<close>

record CallOptions =
  co_max_tokens :: "int option"
  co_temperature :: "real option"
  co_stop :: "string list option"

text \<open>
  The config both \<open>_generate\<close> and \<open>_streamResponseChunks\<close> build from the call
  options and the bound tools; every other field stays unset.
\<close>

definition build_config :: "'s ChatModelAdapter \<Rightarrow> CallOptions option \<Rightarrow> ChatModelConfig" where
  "build_config a opts =
     \<lparr>cfg_maxTokens = (case opts of None \<Rightarrow> None | Some opt \<Rightarrow> co_max_tokens opt),
      cfg_temperature = (case opts of None \<Rightarrow> None | Some opt \<Rightarrow> co_temperature opt),
      cfg_topP = None, cfg_topK = None, cfg_presencePenalty = None,
      cfg_frequencyPenalty = None,
      cfg_stopSequences = (case opts of None \<Rightarrow> None | Some opt \<Rightarrow> co_stop opt),
      cfg_seed = None, cfg_timeout = None, cfg_maxRetries = None, cfg_headers = None,
      cfg_tools = (if length (boundTools a) > 0 then Some (boundTools a) else None),
      cfg_toolChoice = None, cfg_providerOptions = None\<rparr>"

text \<open>\<open>ChatModelAdapter._generate\<close>\<close>

definition generate ::
  "(json \<Rightarrow> string) \<Rightarrow> 's ChatModelAdapter \<Rightarrow> BaseMessage list \<Rightarrow> CallOptions option
     \<Rightarrow> (ChatResult, 's) io" where
  "generate stringify a messages options s =
     (let sdkMessages = flatMap_convertToSdkMessage stringify messages;
          config = build_config a options
      in case opt_generate (cma_options a) sdkMessages config s of
           (Inl e, s') \<Rightarrow> (Inl e, s')
         | (Inr result, s') \<Rightarrow>
             (Inr (convertToLangChainResult result (opt_name (cma_options a))), s'))"

record ChatGenerationChunk =
  cgc_message :: BaseMessage
  cgc_text :: string

text \<open>
  What a run of the generator \<open>_streamResponseChunks\<close> does: the chunks it yields, the
  tokens it hands to the run manager, and the error that ends it, if one does.
\<close>

record StreamRun =
  yielded :: "ChatGenerationChunk list"
  new_tokens :: "string list"
  thrown :: "error option"

text \<open>
  The \<open>for await\<close> loop. A chunk is forwarded when its type is \<open>text-delta\<close> and its
  \<open>textDelta\<close> is truthy (present and not empty); \<open>runManager\<close> says whether a run
  manager was passed.
\<close>

fun forward_chunks :: "bool \<Rightarrow> StreamChunk list \<Rightarrow> ChatGenerationChunk list \<times> string list" where
  "forward_chunks runManager [] = ([], [])"
| "forward_chunks runManager (chunk # rest) =
     (let (ys, ts) = forward_chunks runManager rest
      in case sc_textDelta chunk of
           Some d \<Rightarrow>
             (if sc_type chunk = TextDelta \<and> d \<noteq> []
              then (\<lparr>cgc_message = AIMessageChunk d, cgc_text = d\<rparr> # ys,
                    (if runManager then d # ts else ts))
              else (ys, ts))
         | None \<Rightarrow> (ys, ts))"

text \<open>\<open>ChatModelAdapter._streamResponseChunks\<close>\<close>

definition streamResponseChunks ::
  "(json \<Rightarrow> string) \<Rightarrow> 's ChatModelAdapter \<Rightarrow> BaseMessage list \<Rightarrow> CallOptions option
     \<Rightarrow> bool \<Rightarrow> 's \<Rightarrow> StreamRun \<times> 's" where
  "streamResponseChunks stringify a messages options runManager s =
     (case opt_stream (cma_options a) of
        None \<Rightarrow>
          (case generate stringify a messages options s of
             (Inl e, s') \<Rightarrow> (\<lparr>yielded = [], new_tokens = [], thrown = Some e\<rparr>, s')
           | (Inr result, s') \<Rightarrow>
               (let text = (case generations result of [] \<Rightarrow> [] | g # gs \<Rightarrow> gen_text g)
                in (\<lparr>yielded = [\<lparr>cgc_message = AIMessageChunk text, cgc_text = text\<rparr>],
                     new_tokens = [], thrown = None\<rparr>, s')))
      | Some stream \<Rightarrow>
          (let sdkMessages = flatMap_convertToSdkMessage stringify messages;
               config = build_config a options
           in case stream sdkMessages config s of
                ((chunks, err), s') \<Rightarrow>
                  (case forward_chunks runManager chunks of
                     (ys, ts) \<Rightarrow> (\<lparr>yielded = ys, new_tokens = ts, thrown = err\<rparr>, s'))))"

subsection \<open>Adapters as objects\<close>

text \<open>
  \<open>bindTools\<close> creates an object and assigns to a field, so the adapters live in a
  heap: a reference is an index into the list of allocated adapters. The result is the
  reference returned, or the error thrown, with the heap the call leaves; a reference
  that is not allocated has no run (\<open>None\<close>).
\<close>

type_synonym 's heap = "'s ChatModelAdapter list"

definition bindTools ::
  "'s heap \<Rightarrow> nat \<Rightarrow> Tool_ list \<Rightarrow> ((error + nat) \<times> 's heap) option" where
  "bindTools H this tools =
     (if this < length H then
        (case new_ChatModelAdapter (cma_options (H ! this)) of
           Inl e \<Rightarrow> Some (Inl e, H)
         | Inr obj \<Rightarrow>
             (let newAdapter = length H;
                  H1 = H @ [obj];
                  H2 = H1[newAdapter :=
                          (H1 ! newAdapter)\<lparr>boundTools := boundTools (H1 ! this) @ tools\<rparr>]
              in Some (Inr newAdapter, H2)))
      else None)"

section \<open>The factories (factories/chatModel.ts, factories/memory.ts)\<close>

text \<open>Object spread: a key already present keeps its place and takes the new value.\<close>

fun obj_assign :: "string \<Rightarrow> 'v \<Rightarrow> (string \<times> 'v) list \<Rightarrow> (string \<times> 'v) list" where
  "obj_assign k v [] = [(k, v)]"
| "obj_assign k v ((k', v') # rest) =
     (if k = k' then (k, v) # rest else (k', v') # obj_assign k v rest)"

definition obj_spread :: "(string \<times> 'v) list \<Rightarrow> (string \<times> 'v) list \<Rightarrow> (string \<times> 'v) list" where
  "obj_spread obj extra = foldl (\<lambda>acc kv. obj_assign (fst kv) (snd kv) acc) obj extra"

text \<open>The fields \<open>createChatModel\<close> passes to \<open>new ChatOpenAI\<close>.\<close>

record ChatOpenAIFields =
  openAIApiKey :: string
  modelName :: string
  f_temperature :: "real option"
  f_maxTokens :: "int option"
  f_topP :: "real option"
  f_frequencyPenalty :: "real option"
  f_presencePenalty :: "real option"
  f_stop :: "string list option"
  f_timeout :: "int option"
  f_maxRetries :: "int option"
  f_configuration :: "(string \<times> json option) list"
  f_callbacks :: "json list option"
  f_onFailedAttempt :: "(json \<Rightarrow> error + unit) option"

datatype 's ChatModel = ChatOpenAI ChatOpenAIFields | AdapterModel "'s ChatModelAdapter"

definition createChatModel :: "'s ChatModelOptions \<Rightarrow> error + 's ChatModel" where
  "createChatModel options =
     (case options of
        OpenAICompatible opt \<Rightarrow>
          (let configuration =
                 obj_spread
                   [(''baseURL'', map_option JString (oa_baseUrl opt)),
                    (''defaultHeaders'',
                       map_option (\<lambda>hs. JObject (map (\<lambda>kv. (fst kv, JString (snd kv))) hs))
                         (oa_headers opt))]
                   (case oa_clientOptions opt of None \<Rightarrow> [] | Some extra \<Rightarrow> extra)
           in Inr (ChatOpenAI
                \<lparr>openAIApiKey = oa_apiKey opt,
                 modelName = oa_model opt,
                 f_temperature = oa_temperature opt,
                 f_maxTokens = oa_maxTokens opt,
                 f_topP = oa_topP opt,
                 f_frequencyPenalty = oa_frequencyPenalty opt,
                 f_presencePenalty = oa_presencePenalty opt,
                 f_stop = oa_stopSequences opt,
                 f_timeout = oa_timeout opt,
                 f_maxRetries = oa_maxRetries opt,
                 f_configuration = configuration,
                 f_callbacks = oa_callbacks opt,
                 f_onFailedAttempt = oa_onFailedAttempt opt\<rparr>))
      | Custom opt \<Rightarrow>
          (case new_ChatModelAdapter opt of
             Inl e \<Rightarrow> Inl e
           | Inr adapter \<Rightarrow> Inr (AdapterModel adapter))
      | UnknownModelType ty \<Rightarrow> Inl (Error (''Unknown chat model type: '' @ ty)))"

record 's BaseMemoryOptions =
  mo_chatHistory :: "'s ChatHistory"
  mo_memoryKey :: "string option"
  mo_inputKey :: "string option"
  mo_outputKey :: "string option"
  mo_returnMessages :: "bool option"
  mo_humanPrefix :: "string option"
  mo_aiPrefix :: "string option"

text \<open>
  The options union of \<open>createMemory\<close>, with \<open>k\<close> and \<open>maxTokenLimit\<close>;
  \<open>UnknownMemoryType\<close> is an options object with any other \<open>type\<close> tag.
\<close>

datatype 's MemoryOptions =
    BufferOptions "'s BaseMemoryOptions"
  | BufferWindowOptions "'s BaseMemoryOptions" int
  | TokenBufferOptions "'s BaseMemoryOptions" int
  | UnknownMemoryType "'s BaseMemoryOptions" string

fun base_options :: "'s MemoryOptions \<Rightarrow> 's BaseMemoryOptions" where
  "base_options (BufferOptions b) = b"
| "base_options (BufferWindowOptions b k) = b"
| "base_options (TokenBufferOptions b n) = b"
| "base_options (UnknownMemoryType b ty) = b"

record 's MemoryConfig =
  mc_chatHistory :: "'s ChatHistoryAdapter"
  mc_memoryKey :: string
  mc_inputKey :: string
  mc_outputKey :: string
  mc_returnMessages :: bool
  mc_humanPrefix :: string
  mc_aiPrefix :: string

text \<open>
  The memory objects \<open>createMemory\<close> constructs: \<open>new BufferMemory(config)\<close>, which
  keeps the whole history, and \<open>new BufferWindowMemory({...config, k})\<close>, which keeps
  the last \<open>k\<close> exchanges.
\<close>

datatype 's Memory = BufferMemory "'s MemoryConfig" | BufferWindowMemory "'s MemoryConfig" int

definition or_default :: "'a option \<Rightarrow> 'a \<Rightarrow> 'a" where
  "or_default v d = (case v of None \<Rightarrow> d | Some x \<Rightarrow> x)"

text \<open>\<open>createMemory\<close> returns the memory (or throws) and the lines written by \<open>console.warn\<close>.\<close>

definition createMemory :: "'s MemoryOptions \<Rightarrow> (error + 's Memory) \<times> string list" where
  "createMemory options =
     (let opt = base_options options;
          chatHistory = new_ChatHistoryAdapter (mo_chatHistory opt);
          baseConfig =
            \<lparr>mc_chatHistory = chatHistory,
             mc_memoryKey = or_default (mo_memoryKey opt) ''chat_history'',
             mc_inputKey = or_default (mo_inputKey opt) ''input'',
             mc_outputKey = or_default (mo_outputKey opt) ''output'',
             mc_returnMessages = or_default (mo_returnMessages opt) True,
             mc_humanPrefix = or_default (mo_humanPrefix opt) ''Human'',
             mc_aiPrefix = or_default (mo_aiPrefix opt) ''AI''\<rparr>
      in case options of
           BufferOptions b \<Rightarrow> (Inr (BufferMemory baseConfig), [])
         | BufferWindowOptions b k \<Rightarrow> (Inr (BufferWindowMemory baseConfig k), [])
         | TokenBufferOptions b maxTokenLimit \<Rightarrow>
             (Inr (BufferMemory baseConfig),
              [''TokenBufferMemory not yet fully supported, using BufferMemory''])
         | UnknownMemoryType b ty \<Rightarrow> (Inl (Error (''Unknown memory type: '' @ ty)), []))"

text \<open>
  The eviction policies the memory options name: the whole buffer, the last \<open>k\<close>, a
  token budget. \<open>policy_of\<close> reads off a constructed memory which one it applies.
\<close>

datatype EvictionPolicy = FullBuffer | LastK int | TokenBudget int

fun policy_of :: "'s Memory \<Rightarrow> EvictionPolicy" where
  "policy_of (BufferMemory c) = FullBuffer"
| "policy_of (BufferWindowMemory c k) = LastK k"

section \<open>Tool arguments (utils/toolConversion.ts)\<close>

text \<open>
  \<open>try { ... } catch { ... }\<close> around a body that returns or throws: the handler runs
  only when the body throws, and what it returns (and writes to the console) replaces
  the error.
\<close>

definition try_catch ::
  "(error + 'a) \<Rightarrow> ((error + 'a) \<times> string list) \<Rightarrow> (error + 'a) \<times> string list" where
  "try_catch body handler = (case body of Inr v \<Rightarrow> (Inr v, []) | Inl e \<Rightarrow> handler)"

text \<open>
  \<open>parseToolArguments\<close>: \<open>parse\<close> is \<open>JSON.parse\<close>, which returns the value or throws.
  The result is the value returned, or the error thrown, with the lines written by
  \<open>console.error\<close>.
\<close>

definition parseToolArguments ::
  "(string \<Rightarrow> error + json) \<Rightarrow> string \<Rightarrow> (error + json) \<times> string list" where
  "parseToolArguments parse argumentsString =
     try_catch (parse argumentsString)
       (Inr (JObject []), [''Failed to parse tool arguments: '' @ argumentsString])"

text \<open>
  A stand-in for \<open>JSON.parse\<close> on a few inputs, for concrete runs: it knows the empty
  object and the literals, and throws on everything else.
\<close>

definition parse_sample :: "string \<Rightarrow> error + json" where
  "parse_sample str =
     (if str = ''{}'' then Inr (JObject [])
      else if str = ''null'' then Inr JNull
      else if str = ''true'' then Inr (JBool True)
      else if str = ''false'' then Inr (JBool False)
      else Inl (Error ''SyntaxError''))"

section \<open>Concrete collaborators\<close>

text \<open>
  A provider that is rate limited on its first call and answers from the second on;
  its state is the number of calls made so far.
\<close>

definition flaky_result :: GenerateResult where
  "flaky_result =
     \<lparr>gr_id = None, gr_text = ''Done'', gr_finishReason = Some Stop, gr_usage = None,
      gr_toolCalls = None, gr_rawResponse = None\<rparr>"

definition flaky_model :: "nat CustomChatModelOptions" where
  "flaky_model =
     \<lparr>opt_name = ''flaky'',
      opt_generate = (\<lambda>msgs cfg n. if n = 0 then (Inl (Error ''rate limit''), Suc n)
                                     else (Inr flaky_result, Suc n)),
      opt_stream = None\<rparr>"

text \<open>A provider without streaming that answers with one tool call.\<close>

definition slack_call :: ToolCall where
  "slack_call =
     \<lparr>tc_id = ''tc1'', tc_name = ''slack_post'',
      tc_arguments = JObject [(''text'', JString ''hi'')], tc_argumentsRaw = None\<rparr>"

definition tool_result :: GenerateResult where
  "tool_result =
     \<lparr>gr_id = Some ''r1'', gr_text = ''posting'', gr_finishReason = Some ToolCalls,
      gr_usage = Some \<lparr>promptTokens = 7, completionTokens = 3, totalTokens = 10\<rparr>,
      gr_toolCalls = Some [slack_call], gr_rawResponse = None\<rparr>"

definition tool_model :: "unit CustomChatModelOptions" where
  "tool_model =
     \<lparr>opt_name = ''tools'',
      opt_generate = (\<lambda>msgs cfg s. (Inr tool_result, s)),
      opt_stream = None\<rparr>"

text \<open>Two tools to bind.\<close>

definition search_tool :: Tool_ where
  "search_tool =
     \<lparr>tool_name = ''search'', tool_description = Some ''Search the web'',
      tool_parameters = JObject [(''type'', JString ''object'')], tool_strict = None,
      tool_execute = None\<rparr>"

definition post_tool :: Tool_ where
  "post_tool =
     \<lparr>tool_name = ''slack_post'', tool_description = None,
      tool_parameters = JObject [(''type'', JString ''object'')], tool_strict = Some True,
      tool_execute = None\<rparr>"

text \<open>A provider that streams two text deltas, a tool-call delta, an empty delta and a finish.\<close>

definition delta :: "ChunkType \<Rightarrow> string option \<Rightarrow> StreamChunk" where
  "delta ty d =
     \<lparr>sc_type = ty, sc_textDelta = d, sc_toolCallDelta = None, sc_finishReason = None,
      sc_usage = None, sc_error = None\<rparr>"

definition sample_deltas :: "StreamChunk list" where
  "sample_deltas =
     [delta TextDelta (Some ''post''), delta ToolCallDelta None, delta TextDelta (Some []),
      delta TextDelta (Some ''ing''), delta Finish None]"

definition sample_stream ::
  "Message list \<Rightarrow> ChatModelConfig \<Rightarrow> unit \<Rightarrow> (StreamChunk list \<times> error option) \<times> unit" where
  "sample_stream msgs cfg s = ((sample_deltas, None), s)"

definition streaming_model :: "unit CustomChatModelOptions" where
  "streaming_model =
     \<lparr>opt_name = ''streaming'',
      opt_generate = (\<lambda>msgs cfg s. (Inr tool_result, s)),
      opt_stream = Some sample_stream\<rparr>"

text \<open>
  The text fragments of a stream that are forwarded: those of the chunks of type
  \<open>text-delta\<close> whose \<open>textDelta\<close> is present and not empty, in the order of the stream.
\<close>

definition text_deltas :: "StreamChunk list \<Rightarrow> string list" where
  "text_deltas chunks =
     List.map_filter
       (\<lambda>c. case sc_textDelta c of
               Some d \<Rightarrow> if sc_type c = TextDelta \<and> d \<noteq> [] then Some d else None
             | None \<Rightarrow> None)
       chunks"

subsection \<open>Aggregating a stream\<close>

text \<open>
  The result shape a sequence of yielded chunks aggregates into, as the claim about
  streaming reads it: the text deltas concatenated, and the tool calls the chunk
  messages carry, in order.
\<close>

definition aggregate_text :: "ChatGenerationChunk list \<Rightarrow> string" where
  "aggregate_text chunks = concat (map cgc_text chunks)"

definition aggregate_tool_calls :: "ChatGenerationChunk list \<Rightarrow> LcToolCall list" where
  "aggregate_tool_calls chunks =
     concat (map (\<lambda>c. case lc_tool_calls (cgc_message c) of None \<Rightarrow> [] | Some tcs \<Rightarrow> tcs) chunks)"

definition result_tool_calls :: "ChatResult \<Rightarrow> LcToolCall list" where
  "result_tool_calls r =
     concat (map (\<lambda>g. case lc_tool_calls (gen_message g) of None \<Rightarrow> [] | Some tcs \<Rightarrow> tcs)
               (generations r))"

subsection \<open>One message per recognised block\<close>

text \<open>
  The message a single block of an array content stands for: a string or text block
  keeps the role of the provider message, a tool-use block is an assistant tool call,
  and a block of another type stands for none.
\<close>

fun message_of_block :: "(json \<Rightarrow> string) \<Rightarrow> MessageRole \<Rightarrow> LcContentBlock \<Rightarrow> Message option" where
  "message_of_block stringify role (StringBlock b) =
     Some \<lparr>msg_role = role, msg_content = TextContent b None, msg_name = None\<rparr>"
| "message_of_block stringify role (TextBlock t) =
     Some \<lparr>msg_role = role, msg_content = TextContent t None, msg_name = None\<rparr>"
| "message_of_block stringify role (ToolUseBlock i n inp) =
     Some \<lparr>msg_role = Assistant, msg_content = ToolCallContent i n (stringify inp) None,
           msg_name = None\<rparr>"
| "message_of_block stringify role (OtherBlock ty obj) = None"

fun recognized :: "LcContentBlock \<Rightarrow> bool" where
  "recognized (OtherBlock ty obj) = False"
| "recognized b = True"


section \<open>Auxiliary lemmas\<close>

lemma addMessages_fallback_append:
  "addMessages_fallback h ms1 s = (Inr (), s1) \<Longrightarrow>
   addMessages_fallback h (ms1 @ ms2) s = addMessages_fallback h ms2 s1"
  by (induction ms1 arbitrary: s) (auto split: prod.splits sum.splits)

lemma push_blocks_map_filter:
  "push_blocks S role bs acc = acc @ List.map_filter (message_of_block S role) bs"
  by (induction S role bs acc rule: push_blocks.induct) simp_all

lemma length_map_filter_recognized:
  "length (List.map_filter (message_of_block S role) bs) = length (filter recognized bs)"
proof (induction bs)
  case Nil
  show ?case by simp
next
  case (Cons b bs)
  then show ?case by (cases b) simp_all
qed

lemma forward_chunks_text:
  "aggregate_text (fst (forward_chunks rm chunks))
     = concat (map (\<lambda>c. case sc_textDelta c of
                           Some d \<Rightarrow> if sc_type c = TextDelta then d else []
                         | None \<Rightarrow> []) chunks)"
  by (induction chunks) (auto simp: aggregate_text_def split: prod.splits option.splits)

lemma forward_chunks_shape:
  "c \<in> set (fst (forward_chunks rm chunks)) \<Longrightarrow>
   cgc_message c = AIMessageChunk (cgc_text c) \<and> cgc_text c \<noteq> []"
  by (induction chunks arbitrary: c) (auto split: prod.splits option.splits if_splits)

lemma streamResponseChunks_stream:
  "opt_stream (cma_options a) = Some st \<Longrightarrow>
   st (flatMap_convertToSdkMessage S msgs) (build_config a opts) s = ((chunks, err), s') \<Longrightarrow>
   streamResponseChunks S a msgs opts rm s
     = (\<lparr>yielded = fst (forward_chunks rm chunks),
          new_tokens = snd (forward_chunks rm chunks), thrown = err\<rparr>, s')"
  by (simp add: streamResponseChunks_def Let_def split: prod.splits)

lemma streamResponseChunks_shape:
  "c \<in> set (yielded (fst (streamResponseChunks S a msgs opts rm s))) \<Longrightarrow>
   cgc_message c = AIMessageChunk (cgc_text c)"
proof (cases "opt_stream (cma_options a)")
  case None
  assume "c \<in> set (yielded (fst (streamResponseChunks S a msgs opts rm s)))"
  with None show ?thesis
    by (auto simp: streamResponseChunks_def generate_def convertToLangChainResult_def Let_def
          split: prod.splits sum.splits)
next
  case (Some st)
  assume c: "c \<in> set (yielded (fst (streamResponseChunks S a msgs opts rm s)))"
  obtain chunks err s' where
    "st (flatMap_convertToSdkMessage S msgs) (build_config a opts) s = ((chunks, err), s')"
    by (metis surj_pair)
  with Some c have "c \<in> set (fst (forward_chunks rm chunks))"
    by (simp add: streamResponseChunks_stream)
  then show ?thesis by (simp add: forward_chunks_shape)
qed

lemma forward_chunks_text_deltas:
  "forward_chunks rm chunks
     = (map (\<lambda>d. \<lparr>cgc_message = AIMessageChunk d, cgc_text = d\<rparr>) (text_deltas chunks),
        if rm then text_deltas chunks else [])"
  by (induction chunks)
     (auto simp: text_deltas_def List.map_filter_simps split: prod.splits option.splits)

lemma aggregate_text_chunks:
  "aggregate_text (map (\<lambda>d. \<lparr>cgc_message = AIMessageChunk d, cgc_text = d\<rparr>) ds) = concat ds"
  by (induction ds) (simp_all add: aggregate_text_def)

lemma addMessages_step:
  assumes "h_addMessages h = None"
  shows "addMessages S (new_ChatHistoryAdapter h) (b # bs) s
           = (case h_addMessage h (langChainMessageToSdk S b) s of
                (Inl e, s') \<Rightarrow> (Inl e, s')
              | (Inr u, s') \<Rightarrow> addMessages S (new_ChatHistoryAdapter h) bs s')"
  using assms
  by (simp add: addMessages_def new_ChatHistoryAdapter_def split: prod.splits sum.splits)

section \<open>Memory appends\<close>

text \<open>
  C1, as claimed: an append through \<open>ChatHistoryAdapter.addMessages\<close> is all-or-nothing.
  It is not. Over a history without \<open>addMessages\<close> that holds one message, appending a
  user message and the assistant reply fails on the reply, and the user message stays
  stored: the store goes from empty to one message while the call rejects.
\<close>

theorem addMessages_partial_write:
  "addMessages render_json (new_ChatHistoryAdapter (bounded_history 1))
     [HumanMessage ''hi'', AIMessage ''hello''] []
   = (Inl (Error ''history full''), [textMessage User ''hi''])"
  by (simp add: addMessages_def new_ChatHistoryAdapter_def bounded_history_def
      langChainMessageToSdk_def HumanMessage_def AIMessage_def plain_message_def
      textMessage_def)

text \<open>
  C1, amended: when the backing history implements \<open>addMessages\<close>, the adapter hands it
  the converted batch in one call, so the append is as atomic as that implementation.
  Otherwise the messages are added one at a time, in order, each on the store the
  one before left: an empty batch changes nothing; when adding the first message
  fails, the call rejects with that error on the store that failed call left, and
  the rest is not attempted; when adding it succeeds, the call goes on with the rest
  on the store that addition left. So when the messages before one have been added
  and adding that one fails, the call rejects with that error and the store is as
  those earlier additions (and the failed call) left it.
\<close>

theorem addMessages_failure_keeps_prefix:
  "(\<forall>f. h_addMessages h = Some f \<longrightarrow>
       addMessages S (new_ChatHistoryAdapter h) bs s = f (map (langChainMessageToSdk S) bs) s)
   \<and> (h_addMessages h = None \<longrightarrow>
         addMessages S (new_ChatHistoryAdapter h) [] s = (Inr (), s))
   \<and> (h_addMessages h = None
        \<and> h_addMessage h (langChainMessageToSdk S b) s = (Inl e, s')
       \<longrightarrow> addMessages S (new_ChatHistoryAdapter h) (b # bs) s = (Inl e, s'))
   \<and> (h_addMessages h = None
        \<and> h_addMessage h (langChainMessageToSdk S b) s = (Inr (), s')
       \<longrightarrow> addMessages S (new_ChatHistoryAdapter h) (b # bs) s
            = addMessages S (new_ChatHistoryAdapter h) bs s')
   \<and> (h_addMessages h = None
        \<and> addMessages S (new_ChatHistoryAdapter h) front s = (Inr (), mid)
        \<and> h_addMessage h (langChainMessageToSdk S b) mid = (Inl e, final)
       \<longrightarrow> addMessages S (new_ChatHistoryAdapter h) (front @ b # rest) s = (Inl e, final))"
proof (intro conjI allI impI)
  fix f assume "h_addMessages h = Some f"
  then show "addMessages S (new_ChatHistoryAdapter h) bs s
               = f (map (langChainMessageToSdk S) bs) s"
    by (simp add: addMessages_def new_ChatHistoryAdapter_def)
next
  assume "h_addMessages h = None"
  then show "addMessages S (new_ChatHistoryAdapter h) [] s = (Inr (), s)"
    by (simp add: addMessages_def new_ChatHistoryAdapter_def)
next
  assume "h_addMessages h = None
        \<and> h_addMessage h (langChainMessageToSdk S b) s = (Inl e, s')"
  then show "addMessages S (new_ChatHistoryAdapter h) (b # bs) s = (Inl e, s')"
    by (simp add: addMessages_step)
next
  assume "h_addMessages h = None
        \<and> h_addMessage h (langChainMessageToSdk S b) s = (Inr (), s')"
  then show "addMessages S (new_ChatHistoryAdapter h) (b # bs) s
            = addMessages S (new_ChatHistoryAdapter h) bs s'"
    by (simp add: addMessages_step)
next
  assume a: "h_addMessages h = None
        \<and> addMessages S (new_ChatHistoryAdapter h) front s = (Inr (), mid)
        \<and> h_addMessage h (langChainMessageToSdk S b) mid = (Inl e, final)"
  then have pre: "addMessages_fallback h (map (langChainMessageToSdk S) front) s = (Inr (), mid)"
    by (clarsimp simp: addMessages_def new_ChatHistoryAdapter_def)
  have "addMessages_fallback h
          (map (langChainMessageToSdk S) front @ map (langChainMessageToSdk S) (b # rest)) s
      = addMessages_fallback h (map (langChainMessageToSdk S) (b # rest)) mid"
    by (rule addMessages_fallback_append [OF pre])
  also have "\<dots> = (Inl e, final)" using a by simp
  finally show "addMessages S (new_ChatHistoryAdapter h) (front @ b # rest) s = (Inl e, final)"
    using a by (clarsimp simp: addMessages_def new_ChatHistoryAdapter_def)
qed

theorem addMessages_failure_keeps_prefix_witness:
  "h_addMessages (bounded_history 1) = None
   \<and> h_addMessage (bounded_history 1) (langChainMessageToSdk render_json (HumanMessage ''hi'')) []
       = (Inr (), [textMessage User ''hi''])
   \<and> h_addMessage (bounded_history 1) (langChainMessageToSdk render_json (AIMessage ''hello''))
       [textMessage User ''hi''] = (Inl (Error ''history full''), [textMessage User ''hi''])
   \<and> addMessages render_json (new_ChatHistoryAdapter (bounded_history 1))
       [HumanMessage ''hi'', AIMessage ''hello'', HumanMessage ''again''] []
       = (Inl (Error ''history full''), [textMessage User ''hi''])
   \<and> addMessages render_json (new_ChatHistoryAdapter (bounded_history 1)) [HumanMessage ''hi''] []
       = (Inr (), [textMessage User ''hi''])
   \<and> addMessages render_json (new_ChatHistoryAdapter (bounded_history 1))
       ([HumanMessage ''hi''] @ AIMessage ''hello'' # [HumanMessage ''again'']) []
       = (Inl (Error ''history full''), [textMessage User ''hi''])
   \<and> addMessages render_json (new_ChatHistoryAdapter (batch_history 2))
       [HumanMessage ''hi'', AIMessage ''hello''] []
       = (Inr (), [textMessage User ''hi'', textMessage Assistant ''hello''])
   \<and> addMessages render_json (new_ChatHistoryAdapter (batch_history 1))
       [HumanMessage ''hi'', AIMessage ''hello''] []
       = (Inl (Error ''history full''), [])"
proof -
  let ?A = "new_ChatHistoryAdapter (bounded_history 1)"
  have n: "h_addMessages (bounded_history 1) = None"
    by (simp add: bounded_history_def)
  have ok: "h_addMessage (bounded_history 1)
              (langChainMessageToSdk render_json (HumanMessage ''hi'')) []
            = (Inr (), [textMessage User ''hi''])"
    by (simp add: bounded_history_def langChainMessageToSdk_def HumanMessage_def
        plain_message_def textMessage_def)
  have ko: "h_addMessage (bounded_history 1)
              (langChainMessageToSdk render_json (AIMessage ''hello''))
              [textMessage User ''hi'']
            = (Inl (Error ''history full''), [textMessage User ''hi''])"
    by (simp add: bounded_history_def)
  have step1: "addMessages render_json ?A
                 [HumanMessage ''hi'', AIMessage ''hello'', HumanMessage ''again''] []
               = addMessages render_json ?A [AIMessage ''hello'', HumanMessage ''again'']
                   [textMessage User ''hi'']"
    using addMessages_failure_keeps_prefix
            [where h = "bounded_history 1" and S = render_json and b = "HumanMessage ''hi''"
               and s = "[]" and s' = "[textMessage User ''hi'']"
               and bs = "[AIMessage ''hello'', HumanMessage ''again'']"] n ok
    by blast
  have step2: "addMessages render_json ?A [AIMessage ''hello'', HumanMessage ''again'']
                 [textMessage User ''hi'']
               = (Inl (Error ''history full''), [textMessage User ''hi''])"
    using addMessages_failure_keeps_prefix
            [where h = "bounded_history 1" and S = render_json and b = "AIMessage ''hello''"
               and s = "[textMessage User ''hi'']" and s' = "[textMessage User ''hi'']"
               and e = "Error ''history full''" and bs = "[HumanMessage ''again'']"] n ko
    by blast
  have one: "addMessages render_json ?A [HumanMessage ''hi''] []
               = addMessages render_json ?A [] [textMessage User ''hi'']"
    using addMessages_failure_keeps_prefix
            [where h = "bounded_history 1" and S = render_json and b = "HumanMessage ''hi''"
               and s = "[]" and s' = "[textMessage User ''hi'']" and bs = "[]"] n ok
    by blast
  have nil: "addMessages render_json ?A [] [textMessage User ''hi'']
               = (Inr (), [textMessage User ''hi''])"
    using addMessages_failure_keeps_prefix
            [where h = "bounded_history 1" and S = render_json
               and s = "[textMessage User ''hi'']"] n
    by blast
  from one nil have pre: "addMessages render_json ?A [HumanMessage ''hi''] []
                            = (Inr (), [textMessage User ''hi''])"
    by simp
  have prefix: "addMessages render_json ?A
                  ([HumanMessage ''hi''] @ AIMessage ''hello'' # [HumanMessage ''again'']) []
                = (Inl (Error ''history full''), [textMessage User ''hi''])"
    using addMessages_failure_keeps_prefix
            [where h = "bounded_history 1" and S = render_json and b = "AIMessage ''hello''"
               and s = "[]" and front = "[HumanMessage ''hi'']"
               and mid = "[textMessage User ''hi'']" and final = "[textMessage User ''hi'']"
               and e = "Error ''history full''" and rest = "[HumanMessage ''again'']"] n pre ko
    by blast
  have b2: "addMessages render_json (new_ChatHistoryAdapter (batch_history 2))
              [HumanMessage ''hi'', AIMessage ''hello''] []
            = (Inr (), [textMessage User ''hi'', textMessage Assistant ''hello''])"
    using addMessages_failure_keeps_prefix
            [where h = "batch_history 2" and S = render_json and s = "[]"
               and bs = "[HumanMessage ''hi'', AIMessage ''hello'']"]
    by (simp add: batch_history_def bounded_history_def langChainMessageToSdk_def
        HumanMessage_def AIMessage_def plain_message_def textMessage_def)
  have b1: "addMessages render_json (new_ChatHistoryAdapter (batch_history 1))
              [HumanMessage ''hi'', AIMessage ''hello''] []
            = (Inl (Error ''history full''), [])"
    using addMessages_failure_keeps_prefix
            [where h = "batch_history 1" and S = render_json and s = "[]"
               and bs = "[HumanMessage ''hi'', AIMessage ''hello'']"]
    by (simp add: batch_history_def bounded_history_def)
  from n ok ko step1 step2 pre prefix b2 b1 show ?thesis by simp
qed

section \<open>Streaming\<close>

text \<open>
  C2, as claimed: the chunks of \<open>_streamResponseChunks\<close> aggregate to the result of
  \<open>_generate\<close>, tool calls included. They do not. For a model without a stream function
  that answers with one tool call, \<open>_generate\<close> returns that tool call, and the chunks
  of the stream carry none.
\<close>

theorem stream_loses_tool_calls:
  "map_sum id result_tool_calls
      (fst (generate render_json (adapter_of tool_model)
              [HumanMessage ''post hi''] None ()))
     = Inr [\<lparr>lc_tc_id = ''tc1'', lc_tc_name = ''slack_post'',
             lc_tc_args = JObject [(''text'', JString ''hi'')]\<rparr>]
   \<and> aggregate_tool_calls
       (yielded (fst (streamResponseChunks render_json (adapter_of tool_model)
                        [HumanMessage ''post hi''] None False ()))) = []"
  by (simp add: generate_def streamResponseChunks_def adapter_of_def tool_model_def
      tool_result_def slack_call_def convertToLangChainResult_def result_tool_calls_def
      aggregate_tool_calls_def AIMessageChunk_def plain_message_def Let_def)

text \<open>
  C2, amended: the stream carries text only. Without a stream function, a successful
  \<open>generate\<close> makes the stream yield exactly one chunk, whose text is the generated
  text, and a failed one makes it yield nothing and throw that error. With a stream
  function it yields exactly one chunk per chunk of the stream that has type
  \<open>text-delta\<close> and a non-empty \<open>textDelta\<close>, in the order of the stream, holding that
  text; these texts are what the run manager, if there is one, is told; an error of
  the stream ends the run. So the yielded text concatenates to the concatenation
  of the stream's text deltas. In every case a yielded chunk is a message chunk made
  of its text alone, so the aggregate has no tool calls (nor finish reason or usage).
\<close>

theorem stream_carries_text_only:
  "(opt_stream (cma_options a) = None
      \<and> opt_generate (cma_options a) (flatMap_convertToSdkMessage S msgs)
            (build_config a opts) s = (Inr r, s')
     \<longrightarrow> streamResponseChunks S a msgs opts rm s
          = (\<lparr>yielded = [\<lparr>cgc_message = AIMessageChunk (gr_text r), cgc_text = gr_text r\<rparr>],
               new_tokens = [], thrown = None\<rparr>, s'))
   \<and> (opt_stream (cma_options a) = None
      \<and> opt_generate (cma_options a) (flatMap_convertToSdkMessage S msgs)
            (build_config a opts) s = (Inl e, s')
     \<longrightarrow> streamResponseChunks S a msgs opts rm s
          = (\<lparr>yielded = [], new_tokens = [], thrown = Some e\<rparr>, s'))
   \<and> (\<forall>st chunks err. opt_stream (cma_options a) = Some st
      \<and> st (flatMap_convertToSdkMessage S msgs) (build_config a opts) s = ((chunks, err), s')
     \<longrightarrow> streamResponseChunks S a msgs opts rm s
          = (\<lparr>yielded = map (\<lambda>d. \<lparr>cgc_message = AIMessageChunk d, cgc_text = d\<rparr>)
                           (text_deltas chunks),
               new_tokens = (if rm then text_deltas chunks else []),
               thrown = err\<rparr>, s')
         \<and> aggregate_text (yielded (fst (streamResponseChunks S a msgs opts rm s)))
            = concat (text_deltas chunks)
         \<and> aggregate_text (yielded (fst (streamResponseChunks S a msgs opts rm s)))
            = concat (map (\<lambda>c. case sc_textDelta c of
                                   Some d \<Rightarrow> if sc_type c = TextDelta then d else []
                                 | None \<Rightarrow> []) chunks))
   \<and> (\<forall>c \<in> set (yielded (fst (streamResponseChunks S a msgs opts rm s))).
         cgc_message c = AIMessageChunk (cgc_text c))
   \<and> aggregate_tool_calls (yielded (fst (streamResponseChunks S a msgs opts rm s))) = []"
proof -
  have shape: "\<forall>c \<in> set (yielded (fst (streamResponseChunks S a msgs opts rm s))).
         cgc_message c = AIMessageChunk (cgc_text c)"
    by (simp add: streamResponseChunks_shape)
  have tc: "aggregate_tool_calls (yielded (fst (streamResponseChunks S a msgs opts rm s))) = []"
    using shape by (auto simp: aggregate_tool_calls_def AIMessageChunk_def plain_message_def)
  have fb: "opt_stream (cma_options a) = None
      \<and> opt_generate (cma_options a) (flatMap_convertToSdkMessage S msgs)
            (build_config a opts) s = (Inr r, s')
     \<longrightarrow> streamResponseChunks S a msgs opts rm s
          = (\<lparr>yielded = [\<lparr>cgc_message = AIMessageChunk (gr_text r), cgc_text = gr_text r\<rparr>],
               new_tokens = [], thrown = None\<rparr>, s')"
    by (simp add: streamResponseChunks_def generate_def convertToLangChainResult_def Let_def)
  have ff: "opt_stream (cma_options a) = None
      \<and> opt_generate (cma_options a) (flatMap_convertToSdkMessage S msgs)
            (build_config a opts) s = (Inl e, s')
     \<longrightarrow> streamResponseChunks S a msgs opts rm s
          = (\<lparr>yielded = [], new_tokens = [], thrown = Some e\<rparr>, s')"
    by (simp add: streamResponseChunks_def generate_def Let_def)
  have st: "\<forall>st chunks err. opt_stream (cma_options a) = Some st
      \<and> st (flatMap_convertToSdkMessage S msgs) (build_config a opts) s = ((chunks, err), s')
     \<longrightarrow> streamResponseChunks S a msgs opts rm s
          = (\<lparr>yielded = map (\<lambda>d. \<lparr>cgc_message = AIMessageChunk d, cgc_text = d\<rparr>)
                           (text_deltas chunks),
               new_tokens = (if rm then text_deltas chunks else []),
               thrown = err\<rparr>, s')
         \<and> aggregate_text (yielded (fst (streamResponseChunks S a msgs opts rm s)))
            = concat (text_deltas chunks)
         \<and> aggregate_text (yielded (fst (streamResponseChunks S a msgs opts rm s)))
            = concat (map (\<lambda>c. case sc_textDelta c of
                                   Some d \<Rightarrow> if sc_type c = TextDelta then d else []
                                 | None \<Rightarrow> []) chunks)"
  proof (intro allI impI)
    fix st chunks err
    assume a: "opt_stream (cma_options a) = Some st
      \<and> st (flatMap_convertToSdkMessage S msgs) (build_config a opts) s = ((chunks, err), s')"
    then have run: "streamResponseChunks S a msgs opts rm s
          = (\<lparr>yielded = fst (forward_chunks rm chunks),
               new_tokens = snd (forward_chunks rm chunks), thrown = err\<rparr>, s')"
      by (simp add: streamResponseChunks_stream)
    have 1: "streamResponseChunks S a msgs opts rm s
          = (\<lparr>yielded = map (\<lambda>d. \<lparr>cgc_message = AIMessageChunk d, cgc_text = d\<rparr>)
                           (text_deltas chunks),
               new_tokens = (if rm then text_deltas chunks else []),
               thrown = err\<rparr>, s')"
      using run by (simp add: forward_chunks_text_deltas)
    have 2: "aggregate_text (yielded (fst (streamResponseChunks S a msgs opts rm s)))
            = concat (text_deltas chunks)"
      using 1 by (simp add: aggregate_text_chunks)
    have 3: "aggregate_text (yielded (fst (streamResponseChunks S a msgs opts rm s)))
            = concat (map (\<lambda>c. case sc_textDelta c of
                                   Some d \<Rightarrow> if sc_type c = TextDelta then d else []
                                 | None \<Rightarrow> []) chunks)"
      using run by (simp add: forward_chunks_text)
    from 1 2 3 show "streamResponseChunks S a msgs opts rm s
          = (\<lparr>yielded = map (\<lambda>d. \<lparr>cgc_message = AIMessageChunk d, cgc_text = d\<rparr>)
                           (text_deltas chunks),
               new_tokens = (if rm then text_deltas chunks else []),
               thrown = err\<rparr>, s')
         \<and> aggregate_text (yielded (fst (streamResponseChunks S a msgs opts rm s)))
            = concat (text_deltas chunks)
         \<and> aggregate_text (yielded (fst (streamResponseChunks S a msgs opts rm s)))
            = concat (map (\<lambda>c. case sc_textDelta c of
                                   Some d \<Rightarrow> if sc_type c = TextDelta then d else []
                                 | None \<Rightarrow> []) chunks)"
      by blast
  qed
  from fb ff st shape tc show ?thesis by blast
qed

theorem stream_carries_text_only_witness:
  "opt_stream (cma_options (adapter_of tool_model)) = None
   \<and> streamResponseChunks render_json (adapter_of tool_model)
         [HumanMessage ''post hi''] None False ()
       = (\<lparr>yielded = [\<lparr>cgc_message = AIMessageChunk ''posting'', cgc_text = ''posting''\<rparr>],
            new_tokens = [], thrown = None\<rparr>, ())
   \<and> opt_stream (cma_options (adapter_of flaky_model)) = None
   \<and> streamResponseChunks render_json (adapter_of flaky_model) [HumanMessage ''hi''] None False 0
       = (\<lparr>yielded = [], new_tokens = [], thrown = Some (Error ''rate limit'')\<rparr>, 1)
   \<and> opt_stream (cma_options (adapter_of streaming_model)) = Some sample_stream
   \<and> streamResponseChunks render_json (adapter_of streaming_model)
         [HumanMessage ''post hi''] None True ()
       = (\<lparr>yielded = [\<lparr>cgc_message = AIMessageChunk ''post'', cgc_text = ''post''\<rparr>,
                       \<lparr>cgc_message = AIMessageChunk ''ing'', cgc_text = ''ing''\<rparr>],
            new_tokens = [''post'', ''ing''], thrown = None\<rparr>, ())
   \<and> aggregate_text
       (yielded (fst (streamResponseChunks render_json (adapter_of streaming_model)
                        [HumanMessage ''post hi''] None True ()))) = ''posting''
   \<and> aggregate_tool_calls
       (yielded (fst (streamResponseChunks render_json (adapter_of streaming_model)
                        [HumanMessage ''post hi''] None True ()))) = []"
proof -
  have n: "opt_stream (cma_options (adapter_of tool_model)) = None"
    by (simp add: adapter_of_def tool_model_def)
  have g: "opt_generate (cma_options (adapter_of tool_model))
             (flatMap_convertToSdkMessage render_json [HumanMessage ''post hi''])
             (build_config (adapter_of tool_model) None) ()
           = (Inr tool_result, ())"
    by (simp add: adapter_of_def tool_model_def)
  from stream_carries_text_only
         [where a = "adapter_of tool_model" and S = render_json
            and msgs = "[HumanMessage ''post hi'']" and opts = None and s = "()"
            and r = tool_result and s' = "()" and rm = False] n g
  have 1: "streamResponseChunks render_json (adapter_of tool_model)
             [HumanMessage ''post hi''] None False ()
           = (\<lparr>yielded = [\<lparr>cgc_message = AIMessageChunk (gr_text tool_result),
                            cgc_text = gr_text tool_result\<rparr>],
                new_tokens = [], thrown = None\<rparr>, ())"
    by blast
  have fn: "opt_stream (cma_options (adapter_of flaky_model)) = None"
    by (simp add: adapter_of_def flaky_model_def)
  have fg: "opt_generate (cma_options (adapter_of flaky_model))
             (flatMap_convertToSdkMessage render_json [HumanMessage ''hi''])
             (build_config (adapter_of flaky_model) None) 0
           = (Inl (Error ''rate limit''), 1)"
    by (simp add: adapter_of_def flaky_model_def)
  from stream_carries_text_only
         [where a = "adapter_of flaky_model" and S = render_json
            and msgs = "[HumanMessage ''hi'']" and opts = None and s = 0
            and e = "Error ''rate limit''" and s' = 1 and rm = False] fn fg
  have f1: "streamResponseChunks render_json (adapter_of flaky_model)
              [HumanMessage ''hi''] None False 0
            = (\<lparr>yielded = [], new_tokens = [], thrown = Some (Error ''rate limit'')\<rparr>, 1)"
    by blast
  have s: "opt_stream (cma_options (adapter_of streaming_model)) = Some sample_stream"
    by (simp add: adapter_of_def streaming_model_def)
  have d: "sample_stream (flatMap_convertToSdkMessage render_json [HumanMessage ''post hi''])
             (build_config (adapter_of streaming_model) None) ()
           = ((sample_deltas, None), ())"
    by (simp add: sample_stream_def)
  from stream_carries_text_only
         [where a = "adapter_of streaming_model" and S = render_json
            and msgs = "[HumanMessage ''post hi'']" and opts = None and s = "()"
            and s' = "()" and rm = True] s d
  have 2: "streamResponseChunks render_json (adapter_of streaming_model)
             [HumanMessage ''post hi''] None True ()
           = (\<lparr>yielded = map (\<lambda>d. \<lparr>cgc_message = AIMessageChunk d, cgc_text = d\<rparr>)
                             (text_deltas sample_deltas),
                new_tokens = (if True then text_deltas sample_deltas else []),
                thrown = None\<rparr>, ())
         \<and> aggregate_text
             (yielded (fst (streamResponseChunks render_json (adapter_of streaming_model)
                              [HumanMessage ''post hi''] None True ())))
           = concat (text_deltas sample_deltas)
         \<and> aggregate_tool_calls
             (yielded (fst (streamResponseChunks render_json (adapter_of streaming_model)
                              [HumanMessage ''post hi''] None True ()))) = []"
    by blast
  have 3: "text_deltas sample_deltas = [''post'', ''ing'']"
    by (simp add: text_deltas_def sample_deltas_def delta_def List.map_filter_simps)
  have 4: "gr_text tool_result = ''posting''" by (simp add: tool_result_def)
  from 1 4 have ra: "streamResponseChunks render_json (adapter_of tool_model)
         [HumanMessage ''post hi''] None False ()
       = (\<lparr>yielded = [\<lparr>cgc_message = AIMessageChunk ''posting'', cgc_text = ''posting''\<rparr>],
            new_tokens = [], thrown = None\<rparr>, ())"
    by simp
  from 2 have "streamResponseChunks render_json (adapter_of streaming_model)
             [HumanMessage ''post hi''] None True ()
           = (\<lparr>yielded = map (\<lambda>d. \<lparr>cgc_message = AIMessageChunk d, cgc_text = d\<rparr>)
                             (text_deltas sample_deltas),
                new_tokens = (if True then text_deltas sample_deltas else []),
                thrown = None\<rparr>, ())"
    by (rule conjunct1)
  with 3 have rb: "streamResponseChunks render_json (adapter_of streaming_model)
         [HumanMessage ''post hi''] None True ()
       = (\<lparr>yielded = [\<lparr>cgc_message = AIMessageChunk ''post'', cgc_text = ''post''\<rparr>,
                       \<lparr>cgc_message = AIMessageChunk ''ing'', cgc_text = ''ing''\<rparr>],
            new_tokens = [''post'', ''ing''], thrown = None\<rparr>, ())"
    by simp
  from 2 have "aggregate_text
             (yielded (fst (streamResponseChunks render_json (adapter_of streaming_model)
                              [HumanMessage ''post hi''] None True ())))
           = concat (text_deltas sample_deltas)"
    by (rule conjunct1 [OF conjunct2])
  also have "concat (text_deltas sample_deltas) = ''posting''"
    by (simp add: 3)
  finally have rc: "aggregate_text
       (yielded (fst (streamResponseChunks render_json (adapter_of streaming_model)
                        [HumanMessage ''post hi''] None True ()))) = ''posting''" .
  from 2 have rd: "aggregate_tool_calls
       (yielded (fst (streamResponseChunks render_json (adapter_of streaming_model)
                        [HumanMessage ''post hi''] None True ()))) = []"
    by (rule conjunct2 [OF conjunct2])
  show ?thesis
    apply (intro conjI)
           apply (rule n)
          apply (rule ra)
         apply (rule fn)
        apply (rule f1)
       apply (rule s)
      apply (rule rb)
     apply (rule rc)
    apply (rule rd)
    done
qed

section \<open>Tool results\<close>

text \<open>
  C3, as claimed: the \<open>isError\<close> flag of a tool result stays visible in the message
  \<open>sdkMessageToLangChain\<close> produces. It does not: a failed and a successful result with
  the same id and value are different SDK messages and convert to the same provider
  message.
\<close>

theorem isError_lost_in_conversion:
  "toolResultMessage ''tc1'' (JString ''boom'') (Some True)
     \<noteq> toolResultMessage ''tc1'' (JString ''boom'') (Some False)
   \<and> sdkMessageToLangChain render_json (toolResultMessage ''tc1'' (JString ''boom'') (Some True))
       = sdkMessageToLangChain render_json
           (toolResultMessage ''tc1'' (JString ''boom'') (Some False))
   \<and> sdkMessageToLangChain render_json (toolResultMessage ''tc1'' (JString ''boom'') (Some True))
       = ToolMessage ''boom'' ''tc1''"
  by (simp add: sdkMessageToLangChain_def toolResultMessage_def)

text \<open>
  C3, amended: \<open>toolResultMessage\<close> puts the \<open>isError\<close> flag (false when omitted) into
  the tool-result content of the message it builds. \<open>sdkMessageToLangChain\<close> turns that
  message into a tool message made of the result (as it is when a string, stringified
  otherwise) and the tool call id alone, whatever the flag is.
\<close>

theorem toolResult_conversion_ignores_isError:
  "msg_role (toolResultMessage cid r e) = Tool
   \<and> msg_content (toolResultMessage cid r e)
       = ToolResultContent cid r (Some (or_default e False)) None
   \<and> sdkMessageToLangChain S (toolResultMessage cid r e)
       = ToolMessage (case r of JString str \<Rightarrow> str | _ \<Rightarrow> S r) cid
   \<and> sdkMessageToLangChain S (toolResultMessage cid r e)
       = sdkMessageToLangChain S (toolResultMessage cid r e')"
  by (simp add: sdkMessageToLangChain_def toolResultMessage_def or_default_def
      split: json.splits)

section \<open>Provider messages to SDK messages\<close>

text \<open>
  C4: an SDK message has one content block (the record \<open>Message\<close> has a single
  \<open>msg_content\<close>), and \<open>convertToSdkMessage\<close> keeps to it. For a provider message with
  array content that has recognised blocks, the messages returned are one per
  recognised block, in order, each holding that block alone; so n recognised blocks
  give n messages. An empty array (and an array with no recognised block) gives one
  message with an empty text block, and a string content gives one text message.
\<close>

theorem convertToSdkMessage_one_message_per_block:
  "(\<forall>blocks. lc_content msg = ArrContent blocks \<and> filter recognized blocks \<noteq> [] \<longrightarrow>
       spread (convertToSdkMessage S msg)
         = List.map_filter (message_of_block S (langChainRoleToSdkRole (lc_type msg))) blocks
       \<and> length (spread (convertToSdkMessage S msg)) = length (filter recognized blocks))
   \<and> (lc_content msg = ArrContent [] \<longrightarrow>
         convertToSdkMessage S msg
           = Single \<lparr>msg_role = langChainRoleToSdkRole (lc_type msg),
                     msg_content = TextContent [] None, msg_name = None\<rparr>)
   \<and> (\<forall>blocks. lc_content msg = ArrContent blocks \<and> filter recognized blocks = [] \<longrightarrow>
         convertToSdkMessage S msg
           = Single \<lparr>msg_role = langChainRoleToSdkRole (lc_type msg),
                     msg_content = TextContent [] None, msg_name = None\<rparr>)
   \<and> (\<forall>c. lc_content msg = StrContent c \<longrightarrow>
         convertToSdkMessage S msg
           = Single \<lparr>msg_role = langChainRoleToSdkRole (lc_type msg),
                     msg_content = TextContent c None, msg_name = None\<rparr>)"
proof (intro conjI allI impI)
  fix blocks
  assume a: "lc_content msg = ArrContent blocks \<and> filter recognized blocks \<noteq> []"
  let ?ms = "List.map_filter (message_of_block S (langChainRoleToSdkRole (lc_type msg))) blocks"
  have pb: "push_blocks S (langChainRoleToSdkRole (lc_type msg)) blocks [] = ?ms"
    by (simp add: push_blocks_map_filter)
  have len: "length ?ms = length (filter recognized blocks)"
    by (rule length_map_filter_recognized)
  with a have "?ms \<noteq> []" by (metis length_0_conv)
  with a pb show sp: "spread (convertToSdkMessage S msg) = ?ms"
    by (auto simp: convertToSdkMessage_def Let_def split: list.splits)
  show "length (spread (convertToSdkMessage S msg)) = length (filter recognized blocks)"
    using sp len by simp
next
  assume "lc_content msg = ArrContent []"
  then show "convertToSdkMessage S msg
           = Single \<lparr>msg_role = langChainRoleToSdkRole (lc_type msg),
                     msg_content = TextContent [] None, msg_name = None\<rparr>"
    by (simp add: convertToSdkMessage_def)
next
  fix blocks
  assume a: "lc_content msg = ArrContent blocks \<and> filter recognized blocks = []"
  let ?ms = "List.map_filter (message_of_block S (langChainRoleToSdkRole (lc_type msg))) blocks"
  have "length ?ms = length (filter recognized blocks)"
    by (rule length_map_filter_recognized)
  with a have "?ms = []" by simp
  then have "push_blocks S (langChainRoleToSdkRole (lc_type msg)) blocks [] = []"
    by (simp add: push_blocks_map_filter)
  with a show "convertToSdkMessage S msg
           = Single \<lparr>msg_role = langChainRoleToSdkRole (lc_type msg),
                     msg_content = TextContent [] None, msg_name = None\<rparr>"
    by (simp add: convertToSdkMessage_def)
next
  fix c
  assume "lc_content msg = StrContent c"
  then show "convertToSdkMessage S msg
           = Single \<lparr>msg_role = langChainRoleToSdkRole (lc_type msg),
                     msg_content = TextContent c None, msg_name = None\<rparr>"
    by (simp add: convertToSdkMessage_def)
qed

theorem convertToSdkMessage_one_message_per_block_witness:
  "spread (convertToSdkMessage render_json
             ((AIMessage [])\<lparr>lc_content :=
                ArrContent [TextBlock ''posting'', OtherBlock ''image_url'' JNull,
                            ToolUseBlock ''tc1'' ''slack_post'' (JObject [])]\<rparr>))
     = [\<lparr>msg_role = Assistant, msg_content = TextContent ''posting'' None, msg_name = None\<rparr>,
        \<lparr>msg_role = Assistant,
         msg_content = ToolCallContent ''tc1'' ''slack_post'' ''{}'' None, msg_name = None\<rparr>]
   \<and> convertToSdkMessage render_json ((HumanMessage ''x'')\<lparr>lc_content := ArrContent []\<rparr>)
     = Single \<lparr>msg_role = User, msg_content = TextContent [] None, msg_name = None\<rparr>
   \<and> convertToSdkMessage render_json
       ((HumanMessage ''x'')\<lparr>lc_content := ArrContent [OtherBlock ''image_url'' JNull]\<rparr>)
     = Single \<lparr>msg_role = User, msg_content = TextContent [] None, msg_name = None\<rparr>
   \<and> convertToSdkMessage render_json (SystemMessage ''be brief'')
     = Single \<lparr>msg_role = System, msg_content = TextContent ''be brief'' None, msg_name = None\<rparr>"
  using convertToSdkMessage_one_message_per_block
          [of "(AIMessage [])\<lparr>lc_content :=
                 ArrContent [TextBlock ''posting'', OtherBlock ''image_url'' JNull,
                             ToolUseBlock ''tc1'' ''slack_post'' (JObject [])]\<rparr>" render_json]
        convertToSdkMessage_one_message_per_block
          [of "(HumanMessage ''x'')\<lparr>lc_content := ArrContent []\<rparr>" render_json]
        convertToSdkMessage_one_message_per_block
          [of "(HumanMessage ''x'')\<lparr>lc_content := ArrContent [OtherBlock ''image_url'' JNull]\<rparr>"
              render_json]
        convertToSdkMessage_one_message_per_block [of "SystemMessage ''be brief''" render_json]
  by (simp add: AIMessage_def HumanMessage_def SystemMessage_def plain_message_def
      langChainRoleToSdkRole_def List.map_filter_simps quote_def)

section \<open>Model invocation\<close>

text \<open>
  C5: when the pluggable \<open>generate\<close> returns a result, \<open>_generate\<close> returns a chat result
  with exactly one generation. Its text is the text of the result; the tool calls of
  its message are those of the result, one for one and in order, with the same id,
  name and arguments (and none when the result has none); the output metadata holds
  the usage and the finish reason of the result unchanged.
\<close>

theorem generate_preserves_result:
  assumes "opt_generate (cma_options a) (flatMap_convertToSdkMessage S msgs)
             (build_config a opts) s = (Inr r, s')"
  shows "\<exists>cr g. generate S a msgs opts s = (Inr cr, s')
     \<and> cr = convertToLangChainResult r (opt_name (cma_options a))
     \<and> generations cr = [g]
     \<and> gen_text g = gr_text r
     \<and> lc_content (gen_message g) = StrContent (gr_text r)
     \<and> (gr_toolCalls r = None \<longrightarrow> lc_tool_calls (gen_message g) = None)
     \<and> (\<forall>tcs. gr_toolCalls r = Some tcs \<longrightarrow>
          (\<exists>ls. lc_tool_calls (gen_message g) = Some ls \<and> length ls = length tcs
             \<and> (\<forall>i < length tcs. lc_tc_id (ls ! i) = tc_id (tcs ! i)
                    \<and> lc_tc_name (ls ! i) = tc_name (tcs ! i)
                    \<and> lc_tc_args (ls ! i) = tc_arguments (tcs ! i))))
     \<and> tokenUsage (llmOutput cr) = gr_usage r
     \<and> finishReason (llmOutput cr) = gr_finishReason r"
  using assms by (simp add: generate_def convertToLangChainResult_def Let_def)

theorem generate_preserves_result_witness:
  "opt_generate (cma_options (adapter_of tool_model))
      (flatMap_convertToSdkMessage render_json [HumanMessage ''post hi''])
      (build_config (adapter_of tool_model) None) () = (Inr tool_result, ())
   \<and> (\<exists>cr g. generate render_json (adapter_of tool_model)
                [HumanMessage ''post hi''] None () = (Inr cr, ())
        \<and> generations cr = [g]
        \<and> gen_text g = ''posting''
        \<and> lc_tool_calls (gen_message g)
            = Some [\<lparr>lc_tc_id = ''tc1'', lc_tc_name = ''slack_post'',
                     lc_tc_args = JObject [(''text'', JString ''hi'')]\<rparr>]
        \<and> tokenUsage (llmOutput cr)
            = Some \<lparr>promptTokens = 7, completionTokens = 3, totalTokens = 10\<rparr>
        \<and> finishReason (llmOutput cr) = Some ToolCalls)"
proof -
  have g: "opt_generate (cma_options (adapter_of tool_model))
             (flatMap_convertToSdkMessage render_json [HumanMessage ''post hi''])
             (build_config (adapter_of tool_model) None) ()
           = (Inr tool_result, ())"
    by (simp add: adapter_of_def tool_model_def)
  from generate_preserves_result [OF g]
  obtain cr g where 1: "generate render_json (adapter_of tool_model)
                          [HumanMessage ''post hi''] None () = (Inr cr, ())"
    and 2: "cr = convertToLangChainResult tool_result
                   (opt_name (cma_options (adapter_of tool_model)))"
    and 3: "generations cr = [g]"
    by blast
  from 2 3 have "gen_text g = ''posting''
        \<and> lc_tool_calls (gen_message g)
            = Some [\<lparr>lc_tc_id = ''tc1'', lc_tc_name = ''slack_post'',
                     lc_tc_args = JObject [(''text'', JString ''hi'')]\<rparr>]
        \<and> tokenUsage (llmOutput cr)
            = Some \<lparr>promptTokens = 7, completionTokens = 3, totalTokens = 10\<rparr>
        \<and> finishReason (llmOutput cr) = Some ToolCalls"
    by (auto simp: convertToLangChainResult_def tool_result_def slack_call_def)
  with g 1 3 show ?thesis by blast
qed

text \<open>
  C6, as claimed: a transient failure of the model is retried up to \<open>maxRetries\<close>, so
  one failure followed by success surfaces no error. In the adapter it does: on a
  provider that is rate limited once and answers afterwards, \<open>_generate\<close> calls
  \<open>generate\<close> once and the rate-limit error surfaces, while a second call would have
  answered.
\<close>

theorem generate_does_not_retry:
  "generate render_json (adapter_of flaky_model) [HumanMessage ''hi''] None 0
      = (Inl (Error ''rate limit''), 1)
   \<and> generate render_json (adapter_of flaky_model) [HumanMessage ''hi''] None 1
      = (Inr (convertToLangChainResult flaky_result ''flaky''), 2)"
  by (simp add: generate_def adapter_of_def flaky_model_def Let_def)

text \<open>
  C6, amended: \<open>createChatModel\<close> hands \<open>maxRetries\<close> to the OpenAI client it constructs
  for the \<open>openaiCompatible\<close> variant, which does the retrying. The adapter of the
  custom variant has no such setting: the config it passes to \<open>generate\<close> leaves
  \<open>maxRetries\<close> unset, and \<open>_generate\<close> calls \<open>generate\<close> once, surfaces its error
  unchanged, or converts its result, with the provider as that one call left it.
\<close>

theorem maxRetries_passed_to_openai_only:
  "(\<exists>f. createChatModel (OpenAICompatible oa :: 's ChatModelOptions) = Inr (ChatOpenAI f)
         \<and> f_maxRetries f = oa_maxRetries oa)
   \<and> cfg_maxRetries (build_config a opts) = None
   \<and> (opt_generate (cma_options a) (flatMap_convertToSdkMessage S msgs)
         (build_config a opts) s = (Inl e, s')
        \<longrightarrow> generate S a msgs opts s = (Inl e, s'))
   \<and> (opt_generate (cma_options a) (flatMap_convertToSdkMessage S msgs)
         (build_config a opts) s = (Inr r, s')
        \<longrightarrow> generate S a msgs opts s
             = (Inr (convertToLangChainResult r (opt_name (cma_options a))), s'))"
  by (simp add: createChatModel_def build_config_def generate_def Let_def)

theorem maxRetries_passed_to_openai_only_witness:
  "opt_generate (cma_options (adapter_of flaky_model))
      (flatMap_convertToSdkMessage render_json [HumanMessage ''hi''])
      (build_config (adapter_of flaky_model) None) 0
     = (Inl (Error ''rate limit''), 1)
   \<and> generate render_json (adapter_of flaky_model) [HumanMessage ''hi''] None 0
     = (Inl (Error ''rate limit''), 1)
   \<and> opt_generate (cma_options (adapter_of flaky_model))
      (flatMap_convertToSdkMessage render_json [HumanMessage ''hi''])
      (build_config (adapter_of flaky_model) None) 1
     = (Inr flaky_result, 2)
   \<and> generate render_json (adapter_of flaky_model) [HumanMessage ''hi''] None 1
     = (Inr (convertToLangChainResult flaky_result ''flaky''), 2)
   \<and> cfg_maxRetries (build_config (adapter_of flaky_model) None) = None"
proof -
  have g: "opt_generate (cma_options (adapter_of flaky_model))
             (flatMap_convertToSdkMessage render_json [HumanMessage ''hi''])
             (build_config (adapter_of flaky_model) None) 0
           = (Inl (Error ''rate limit''), 1)"
    by (simp add: adapter_of_def flaky_model_def)
  have g2: "opt_generate (cma_options (adapter_of flaky_model))
             (flatMap_convertToSdkMessage render_json [HumanMessage ''hi''])
             (build_config (adapter_of flaky_model) None) 1
           = (Inr flaky_result, 2)"
    by (simp add: adapter_of_def flaky_model_def)
  have nm: "opt_name (cma_options (adapter_of flaky_model)) = ''flaky''"
    by (simp add: adapter_of_def flaky_model_def)
  from maxRetries_passed_to_openai_only
         [where a = "adapter_of flaky_model" and opts = None and S = render_json
            and msgs = "[HumanMessage ''hi'']" and s = 0 and e = "Error ''rate limit''"
            and s' = 1] g
  have 1: "generate render_json (adapter_of flaky_model) [HumanMessage ''hi''] None 0
             = (Inl (Error ''rate limit''), 1)
           \<and> cfg_maxRetries (build_config (adapter_of flaky_model) None) = None"
    by blast
  from maxRetries_passed_to_openai_only
         [where a = "adapter_of flaky_model" and opts = None and S = render_json
            and msgs = "[HumanMessage ''hi'']" and s = 1 and r = flaky_result
            and s' = 2] g2
  have "generate render_json (adapter_of flaky_model) [HumanMessage ''hi''] None 1
          = (Inr (convertToLangChainResult flaky_result
                    (opt_name (cma_options (adapter_of flaky_model)))), 2)"
    by blast
  with nm have 2: "generate render_json (adapter_of flaky_model) [HumanMessage ''hi''] None 1
             = (Inr (convertToLangChainResult flaky_result ''flaky''), 2)"
    by simp
  from g g2 1 2 show ?thesis by blast
qed

section \<open>Memory factory\<close>

text \<open>
  C7, on the code: for \<open>tokenBuffer\<close> options \<open>createMemory\<close> returns the same memory
  as for \<open>buffer\<close> options over the same base options, whatever \<open>maxTokenLimit\<close> is: a
  buffer memory, whose policy is the full buffer, with a warning on the console.
\<close>

theorem tokenBuffer_falls_back_to_buffer:
  "fst (createMemory (TokenBufferOptions b n)) = fst (createMemory (BufferOptions b))
   \<and> (\<exists>m. createMemory (TokenBufferOptions b n)
            = (Inr m, [''TokenBufferMemory not yet fully supported, using BufferMemory''])
          \<and> policy_of m = FullBuffer \<and> policy_of m \<noteq> TokenBudget n)
   \<and> (\<exists>m. fst (createMemory (BufferWindowOptions b k)) = Inr m \<and> policy_of m = LastK k)"
  by (simp add: createMemory_def Let_def)

section \<open>History round trip\<close>

text \<open>
  C8: a message with a text block goes through \<open>sdkMessageToLangChain\<close> and back
  through \<open>langChainMessageToSdk\<close> with its text unchanged; its role is unchanged when
  it is system, user or assistant, and a tool role comes back as assistant.
\<close>

theorem text_roundtrip_role:
  assumes "msg_content m = TextContent t md"
  shows "(msg_role m \<noteq> Tool \<longrightarrow>
            msg_role (langChainMessageToSdk S (sdkMessageToLangChain S m)) = msg_role m \<and>
            msg_content (langChainMessageToSdk S (sdkMessageToLangChain S m))
              = TextContent t None)
       \<and> (msg_role m = Tool \<longrightarrow>
            msg_role (langChainMessageToSdk S (sdkMessageToLangChain S m)) = Assistant \<and>
            msg_role (langChainMessageToSdk S (sdkMessageToLangChain S m)) \<noteq> msg_role m \<and>
            msg_content (langChainMessageToSdk S (sdkMessageToLangChain S m))
              = TextContent t None)"
  using assms
  by (cases "msg_role m")
     (simp_all add: sdkMessageToLangChain_def langChainMessageToSdk_def SystemMessage_def
        HumanMessage_def AIMessage_def plain_message_def)

theorem text_roundtrip_role_witness:
  "msg_content (textMessage User ''hi'') = TextContent ''hi'' None
   \<and> msg_role (textMessage User ''hi'') \<noteq> Tool
   \<and> langChainMessageToSdk render_json (sdkMessageToLangChain render_json (textMessage User ''hi''))
       = textMessage User ''hi''
   \<and> msg_content (textMessage Tool ''42'') = TextContent ''42'' None
   \<and> msg_role (textMessage Tool ''42'') = Tool
   \<and> msg_role (langChainMessageToSdk render_json
                  (sdkMessageToLangChain render_json (textMessage Tool ''42''))) = Assistant"
proof -
  have u: "msg_content (textMessage User ''hi'') = TextContent ''hi'' None"
    and t: "msg_content (textMessage Tool ''42'') = TextContent ''42'' None"
    by (simp_all add: textMessage_def)
  have ru: "msg_role (textMessage User ''hi'') \<noteq> Tool"
    and rt: "msg_role (textMessage Tool ''42'') = Tool"
    by (simp_all add: textMessage_def)
  from text_roundtrip_role [OF u, of render_json] ru
  have 1: "msg_role (langChainMessageToSdk render_json
                       (sdkMessageToLangChain render_json (textMessage User ''hi'')))
             = msg_role (textMessage User ''hi'')
         \<and> msg_content (langChainMessageToSdk render_json
                          (sdkMessageToLangChain render_json (textMessage User ''hi'')))
             = TextContent ''hi'' None"
    by blast
  have n: "msg_name (langChainMessageToSdk render_json
                       (sdkMessageToLangChain render_json (textMessage User ''hi''))) = None"
    by (simp add: langChainMessageToSdk_def Let_def)
  from 1 n have 2: "langChainMessageToSdk render_json
                      (sdkMessageToLangChain render_json (textMessage User ''hi''))
                    = textMessage User ''hi''"
    by (simp add: textMessage_def)
  from text_roundtrip_role [OF t, of render_json] rt
  have 3: "msg_role (langChainMessageToSdk render_json
                       (sdkMessageToLangChain render_json (textMessage Tool ''42'')))
             = Assistant"
    by blast
  from u ru 2 t rt 3 show ?thesis by blast
qed

section \<open>Parsing tool arguments\<close>

text \<open>
  C9: \<open>parseToolArguments\<close> returns for every input string and never throws. When
  \<open>JSON.parse\<close> returns a value, that value is the result and nothing is written to the
  console (the error branch is not taken); when \<open>JSON.parse\<close> throws, the result is
  the empty object and the failure is written to the console.
\<close>

theorem parseToolArguments_total:
  "(\<exists>v. fst (parseToolArguments parse str) = Inr v)
   \<and> (\<forall>v. parse str = Inr v \<longrightarrow> parseToolArguments parse str = (Inr v, []))
   \<and> (\<forall>e. parse str = Inl e \<longrightarrow>
         parseToolArguments parse str
           = (Inr (JObject []), [''Failed to parse tool arguments: '' @ str]))"
  by (cases "parse str") (simp_all add: parseToolArguments_def try_catch_def)

theorem parseToolArguments_total_witness:
  "parse_sample ''true'' = Inr (JBool True)
   \<and> parseToolArguments parse_sample ''true'' = (Inr (JBool True), [])
   \<and> parse_sample ''{oops'' = Inl (Error ''SyntaxError'')
   \<and> parseToolArguments parse_sample ''{oops''
       = (Inr (JObject []), [''Failed to parse tool arguments: {oops''])"
proof -
  have 1: "parse_sample ''true'' = Inr (JBool True)"
    and 2: "parse_sample ''{oops'' = Inl (Error ''SyntaxError'')"
    by (simp_all add: parse_sample_def)
  from parseToolArguments_total [of parse_sample "''true''"] 1
  have 3: "parseToolArguments parse_sample ''true'' = (Inr (JBool True), [])"
    by blast
  from parseToolArguments_total [of parse_sample "''{oops''"] 2
  have 4: "parseToolArguments parse_sample ''{oops''
             = (Inr (JObject []), [''Failed to parse tool arguments: '' @ ''{oops''])"
    by blast
  from 1 2 3 4 show ?thesis by simp
qed

section \<open>Binding tools\<close>

text \<open>
  C10, on the code: \<open>bindTools\<close> is written to return a new adapter whose bound tools
  are the receiver's followed by the argument's, and it never gets there. The
  constructor it calls throws for every options object, because \<open>super({})\<close> reads
  \<open>this.options.name\<close> before \<open>this.options\<close> is assigned. So on every allocated
  receiver \<open>bindTools\<close> ends with that \<open>TypeError\<close>, returns no adapter, and leaves the
  heap, the receiver included, as it was.
\<close>

theorem bindTools_throws:
  "new_ChatModelAdapter options = Inl (undefined_read ''name'')
   \<and> (this < length H \<longrightarrow> bindTools H this tools = Some (Inl (undefined_read ''name''), H))"
  by (simp add: bindTools_def new_ChatModelAdapter_def BaseChatModel_init_def llmType_of_def)

theorem bindTools_throws_witness:
  "(0::nat) < length [adapter_of tool_model]
   \<and> bindTools [adapter_of tool_model] 0 [search_tool]
       = Some (Inl (TypeError (''Cannot read properties of undefined (reading ''
                                @ [CHR 0x27] @ ''name'' @ [CHR 0x27] @ '')'')),
               [adapter_of tool_model])"
proof -
  have h: "(0::nat) < length [adapter_of tool_model]" by simp
  from bindTools_throws [where this = 0 and H = "[adapter_of tool_model]"
                           and tools = "[search_tool]"] h
  have "bindTools [adapter_of tool_model] 0 [search_tool]
          = Some (Inl (undefined_read ''name''), [adapter_of tool_model])"
    by blast
  with h show ?thesis by (simp add: undefined_read_def)
qed

end
